theory Spec2Isabelle
  imports Main "HOL-Library.Word"
begin

section \<open>JavaScript values\<close>

text \<open>
  A JavaScript string is a sequence of 16-bit code units. String literals of
  \<^verbatim>\<open>server.js\<close> are ASCII, so \<open>js ''abc''\<close> writes the literal \<^verbatim>\<open>'abc'\<close>.
\<close>

type_synonym jsstring = "16 word list"

definition js :: "string \<Rightarrow> jsstring" where
  "js s = map of_char s"

text \<open>
  The values the handlers see: what \<^verbatim>\<open>JSON.parse\<close> builds from an upstream body, what
  Express puts into \<^verbatim>\<open>req.params\<close> and \<^verbatim>\<open>req.query\<close>, and \<^verbatim>\<open>undefined\<close>. The program does
  no arithmetic, so a Number is represented by its canonical rendering (what
  \<^verbatim>\<open>Number.prototype.toString\<close> returns): \<^verbatim>\<open>1\<close> is \<open>JNum (js ''1'')\<close>, \<^verbatim>\<open>NaN\<close> is
  \<open>JNum (js ''NaN'')\<close>, and both zeros are \<open>JNum (js ''0'')\<close>. An object is the list of its
  own properties; the first entry of a key is its value.
\<close>

datatype jsval =
    JUndefined
  | JNull
  | JBool bool
  | JNum jsstring
  | JStr jsstring
  | JArr "jsval list"
  | JObj "(jsstring \<times> jsval) list"

text \<open>
  What can be thrown. The first three are \<^verbatim>\<open>TypeError\<close>s (a property read on
  \<^verbatim>\<open>undefined\<close> or \<^verbatim>\<open>null\<close>, a call of a method the value does not have, an object
  that has no primitive value), \<open>URIMalformed\<close> is the \<^verbatim>\<open>URIError\<close> of
  \<^verbatim>\<open>encodeURIComponent\<close>, and \<open>Rejection m\<close> is the error \<^verbatim>\<open>axios.get\<close> rejects with,
  \<open>m\<close> being its \<^verbatim>\<open>message\<close> property.
\<close>

datatype js_error =
    CannotRead jsval jsstring
  | NotAFunction jsstring
  | NoPrimitive jsval
  | URIMalformed
  | Rejection jsval

definition ebind :: "'e + 'a \<Rightarrow> ('a \<Rightarrow> 'e + 'b) \<Rightarrow> 'e + 'b" where
  "ebind r f = (case r of Inl e \<Rightarrow> Inl e | Inr x \<Rightarrow> f x)"

fun sequence :: "('e + 'a) list \<Rightarrow> 'e + 'a list" where
  "sequence [] = Inr []"
| "sequence (r # rs) = ebind r (\<lambda>x. ebind (sequence rs) (\<lambda>xs. Inr (x # xs)))"

text \<open>\<^verbatim>\<open>ToBoolean\<close>: what \<^verbatim>\<open>if (v)\<close>, \<^verbatim>\<open>!v\<close>, \<^verbatim>\<open>v || d\<close>, \<^verbatim>\<open>v && w\<close> and \<^verbatim>\<open>v ? a : b\<close> test.\<close>

fun truthy :: "jsval \<Rightarrow> bool" where
  "truthy JUndefined = False"
| "truthy JNull = False"
| "truthy (JBool b) = b"
| "truthy (JNum r) = (r \<noteq> js ''0'' \<and> r \<noteq> js ''NaN'')"
| "truthy (JStr s) = (s \<noteq> [])"
| "truthy (JArr xs) = True"
| "truthy (JObj kvs) = True"

definition js_or :: "jsval \<Rightarrow> jsval \<Rightarrow> jsval" where
  "js_or a b = (if truthy a then a else b)"

text \<open>
  A property read \<^verbatim>\<open>v.k\<close>, for a name \<open>k\<close> that no built-in prototype defines
  (\<^verbatim>\<open>success\<close>, \<^verbatim>\<open>data\<close> and \<^verbatim>\<open>title\<close> are the names the handlers read): it throws on
  \<^verbatim>\<open>undefined\<close> and \<^verbatim>\<open>null\<close>, finds an own property of an object, and is \<^verbatim>\<open>undefined\<close>
  everywhere else.
\<close>

definition get_prop :: "jsval \<Rightarrow> jsstring \<Rightarrow> js_error + jsval" where
  "get_prop v k =
     (case v of
        JUndefined \<Rightarrow> Inl (CannotRead v k)
      | JNull \<Rightarrow> Inl (CannotRead v k)
      | JObj kvs \<Rightarrow> Inr (case map_of kvs k of Some x \<Rightarrow> x | None \<Rightarrow> JUndefined)
      | _ \<Rightarrow> Inr JUndefined)"

fun join_comma :: "jsstring list \<Rightarrow> jsstring" where
  "join_comma [] = []"
| "join_comma [s] = s"
| "join_comma (s # t # ss) = s @ js '','' @ join_comma (t # ss)"

text \<open>
  \<^verbatim>\<open>ToString\<close>, as a template literal applies it to a substitution. An array goes
  through \<^verbatim>\<open>Array.prototype.join\<close> (\<^verbatim>\<open>undefined\<close> and \<^verbatim>\<open>null\<close> elements give the
  empty string). An object goes through \<^verbatim>\<open>Object.prototype.toString\<close>, unless an own
  property \<^verbatim>\<open>toString\<close> shadows it: that property is never callable here, and neither
  an own \<^verbatim>\<open>valueOf\<close> nor \<^verbatim>\<open>Object.prototype.valueOf\<close> yields a primitive, so the
  conversion throws.
\<close>

fun to_string :: "jsval \<Rightarrow> js_error + jsstring" where
  "to_string JUndefined = Inr (js ''undefined'')"
| "to_string JNull = Inr (js ''null'')"
| "to_string (JBool b) = Inr (if b then js ''true'' else js ''false'')"
| "to_string (JNum r) = Inr r"
| "to_string (JStr s) = Inr s"
| "to_string (JArr xs) =
     ebind (sequence (map (\<lambda>x. if x = JUndefined \<or> x = JNull then Inr [] else to_string x) xs))
       (\<lambda>ss. Inr (join_comma ss))"
| "to_string (JObj kvs) =
     (if map_of kvs (js ''toString'') \<noteq> None then Inl (NoPrimitive (JObj kvs))
      else Inr (js ''[object Object]''))"

text \<open>
  A template literal: the substitutions are evaluated and converted from left to right,
  and the first one that throws ends the evaluation.
\<close>

datatype part = Lit jsstring | Sub "js_error + jsval"

fun template :: "part list \<Rightarrow> js_error + jsstring" where
  "template [] = Inr []"
| "template (Lit s # ps) = ebind (template ps) (\<lambda>rest. Inr (s @ rest))"
| "template (Sub r # ps) =
     ebind r (\<lambda>v. ebind (to_string v) (\<lambda>s. ebind (template ps) (\<lambda>rest. Inr (s @ rest))))"

text \<open>
  A call \<^verbatim>\<open>v.name(...)\<close> of a method of \<^verbatim>\<open>String.prototype\<close>: only a string has it.
\<close>

definition str_method :: "jsstring \<Rightarrow> jsval \<Rightarrow> (jsstring \<Rightarrow> 'a) \<Rightarrow> js_error + 'a" where
  "str_method name v f =
     (case v of
        JStr s \<Rightarrow> Inr (f s)
      | JUndefined \<Rightarrow> Inl (CannotRead v name)
      | JNull \<Rightarrow> Inl (CannotRead v name)
      | _ \<Rightarrow> Inl (NotAFunction name))"

text \<open>\<^verbatim>\<open>s.split(sep)\<close> for a separator of one code unit: never an empty array.\<close>

fun split :: "16 word \<Rightarrow> jsstring \<Rightarrow> jsstring list" where
  "split sep [] = [[]]"
| "split sep (c # cs) =
     (if c = sep then [] # split sep cs
      else (case split sep cs of p # ps \<Rightarrow> (c # p) # ps | [] \<Rightarrow> [[c]]))"

text \<open>\<^verbatim>\<open>a[i]\<close> on an array of strings: \<^verbatim>\<open>undefined\<close> out of range.\<close>

definition index :: "jsstring list \<Rightarrow> nat \<Rightarrow> jsval" where
  "index xs i = (if i < length xs then JStr (xs ! i) else JUndefined)"

text \<open>\<^verbatim>\<open>s.replace(a, b)\<close> for strings \<open>a\<close> and \<open>b\<close> of one code unit: the first \<open>a\<close> only.\<close>

fun replace :: "16 word \<Rightarrow> 16 word \<Rightarrow> jsstring \<Rightarrow> jsstring" where
  "replace a b [] = []"
| "replace a b (c # cs) = (if c = a then b # cs else c # replace a b cs)"

subsection \<open>\<^verbatim>\<open>encodeURIComponent\<close>\<close>

text \<open>
  The unreserved set of \<^verbatim>\<open>encodeURIComponent\<close>: letters, digits and \<^verbatim>\<open>- _ . ! ~ * ' ( )\<close>.
  Every other code point is written as the \<^verbatim>\<open>%XX\<close> escapes of its UTF-8 octets; a
  surrogate that is not half of a pair throws.
\<close>

definition uriUnreserved :: "16 word \<Rightarrow> bool" where
  "uriUnreserved c =
     ((0x41 \<le> c \<and> c \<le> 0x5A) \<or> (0x61 \<le> c \<and> c \<le> 0x7A) \<or> (0x30 \<le> c \<and> c \<le> 0x39) \<or>
      c \<in> set [0x2D, 0x5F, 0x2E, 0x21, 0x7E, 0x2A, 0x27, 0x28, 0x29])"

definition isLeadingSurrogate :: "16 word \<Rightarrow> bool" where
  "isLeadingSurrogate c = (0xD800 \<le> c \<and> c \<le> 0xDBFF)"

definition isTrailingSurrogate :: "16 word \<Rightarrow> bool" where
  "isTrailingSurrogate c = (0xDC00 \<le> c \<and> c \<le> 0xDFFF)"

definition codePoint :: "16 word \<Rightarrow> 16 word \<Rightarrow> nat" where
  "codePoint lead trail = (unat lead - 0xD800) * 0x400 + (unat trail - 0xDC00) + 0x10000"

definition utf8 :: "nat \<Rightarrow> nat list" where
  "utf8 cp =
     (if cp < 0x80 then [cp]
      else if cp < 0x800 then [0xC0 + cp div 0x40, 0x80 + cp mod 0x40]
      else if cp < 0x10000 then
        [0xE0 + cp div 0x1000, 0x80 + cp div 0x40 mod 0x40, 0x80 + cp mod 0x40]
      else
        [0xF0 + cp div 0x40000, 0x80 + cp div 0x1000 mod 0x40, 0x80 + cp div 0x40 mod 0x40,
         0x80 + cp mod 0x40])"

definition hexDigit :: "nat \<Rightarrow> 16 word" where
  "hexDigit n = js ''0123456789ABCDEF'' ! (n mod 16)"

definition percent :: "nat \<Rightarrow> jsstring" where
  "percent octet = [0x25, hexDigit (octet div 16), hexDigit octet]"

fun encode :: "jsstring \<Rightarrow> js_error + jsstring" where
  "encode [] = Inr []"
| "encode (c # cs) =
     (if uriUnreserved c then ebind (encode cs) (\<lambda>r. Inr (c # r))
      else if isLeadingSurrogate c then
        (case cs of
           [] \<Rightarrow> Inl URIMalformed
         | d # ds \<Rightarrow>
             if isTrailingSurrogate d
             then ebind (encode ds) (\<lambda>r. Inr (concat (map percent (utf8 (codePoint c d))) @ r))
             else Inl URIMalformed)
      else if isTrailingSurrogate c then Inl URIMalformed
      else ebind (encode cs) (\<lambda>r. Inr (concat (map percent (utf8 (unat c))) @ r)))"

definition encodeURIComponent :: "jsval \<Rightarrow> js_error + jsstring" where
  "encodeURIComponent v = ebind (to_string v) encode"

section \<open>Requests, responses and the world outside \<^verbatim>\<open>server.js\<close>\<close>

text \<open>
  Express hands a handler the request it matched to the handler's route: \<open>matched\<close> is
  the route whose method and path pattern the request matches (\<open>None\<close> when no route
  does), \<open>params\<close> are the decoded path parameters, which are strings, and \<open>query\<close> is the
  parsed query string, whose values are strings, arrays or objects.
\<close>

datatype route =
    Home | AnimeDetails | Episodes | Watch | Search | Browse
  | ApiSuggestions | ApiServers | ApiStream

record request =
  matched :: "route option"
  params :: "jsstring \<Rightarrow> jsstring option"
  query :: "jsstring \<Rightarrow> jsval option"

definition req_params :: "request \<Rightarrow> jsstring \<Rightarrow> jsval" where
  "req_params req k = (case params req k of Some s \<Rightarrow> JStr s | None \<Rightarrow> JUndefined)"

definition req_query :: "request \<Rightarrow> jsstring \<Rightarrow> jsval" where
  "req_query req k = (case query req k of Some v \<Rightarrow> v | None \<Rightarrow> JUndefined)"

text \<open>
  A response is a render of a view with its context (\<^verbatim>\<open>res.render\<close>) or a JSON body
  (\<^verbatim>\<open>res.json\<close>), each with the status code of \<^verbatim>\<open>res\<close>, which is 200 unless
  \<^verbatim>\<open>res.status\<close> has set it.
\<close>

datatype response =
    Render (res_status: nat) (res_view: jsstring) (res_locals: "(jsstring \<times> jsval) list")
  | Json (res_status: nat) (res_body: jsval)

text \<open>The object \<^verbatim>\<open>axios.get\<close> resolves with; only its \<^verbatim>\<open>data\<close> is read.\<close>

record axios_response =
  data :: jsval

text \<open>
  What Express and the middleware of lines 11 to 14 (\<^verbatim>\<open>cors\<close>, the body parsers,
  \<^verbatim>\<open>express.static\<close>) do with a request before a route handler sees it: pass it on,
  answer it themselves, or forward an error to the error handler.
\<close>

datatype verdict = Next | Answered | Failed js_error

text \<open>
  Everything \<^verbatim>\<open>server.js\<close> uses and does not define: the upstream behind \<^verbatim>\<open>axios.get\<close>
  (the URL to what the promise settles with: \<open>Inl\<close> a rejection, which is what axios
  does on a transport failure and on a status outside 2xx; the URLs that one request
  asks for are all different, so a function of the URL says what each call settles
  with), \<^verbatim>\<open>parseInt\<close> on a string,
  \<^verbatim>\<open>String.prototype.toUpperCase\<close>, the \<^verbatim>\<open>message\<close> and \<^verbatim>\<open>stack\<close> the engine gives an
  error it throws, and the middleware.
\<close>

record env =
  axios_get :: "jsstring \<Rightarrow> js_error + axios_response"
  parseInt :: "jsstring \<Rightarrow> jsval"
  toUpperCase :: "jsstring \<Rightarrow> jsstring"
  engine_message :: "js_error \<Rightarrow> jsstring"
  stack :: "js_error \<Rightarrow> jsval"
  middleware :: "request \<Rightarrow> verdict"

text \<open>\<^verbatim>\<open>error.message\<close>\<close>

definition message :: "env \<Rightarrow> js_error \<Rightarrow> jsval" where
  "message env error =
     (case error of Rejection m \<Rightarrow> m | _ \<Rightarrow> JStr (engine_message env error))"

text \<open>\<^verbatim>\<open>parseInt(v)\<close>: the argument is converted to a string first.\<close>

definition js_parseInt :: "env \<Rightarrow> jsval \<Rightarrow> js_error + jsval" where
  "js_parseInt env v = ebind (to_string v) (\<lambda>s. Inr (parseInt env s))"

subsection \<open>Effects\<close>

text \<open>
  The effects of a request: the URLs requested from the upstream, in the order the
  requests are issued, the lines written with \<^verbatim>\<open>console.error\<close>, and the timeline of the
  upstream calls, which says when a request was issued and when the handler resumed
  with what it settled to. A computation takes the effects so far and returns its
  value, or what it throws, with the effects extended.
\<close>

datatype event = is_Issued: Issued jsstring | is_Settled: Settled jsstring

record io =
  requested :: "jsstring list"
  console :: "jsval list list"
  timeline :: "event list"

type_synonym 'a js = "io \<Rightarrow> (js_error + 'a) \<times> io"

definition js_return :: "'a \<Rightarrow> 'a js" where
  "js_return x = (\<lambda>s. (Inr x, s))"

definition js_lift :: "js_error + 'a \<Rightarrow> 'a js" where
  "js_lift r = (\<lambda>s. (r, s))"

definition js_bind :: "'a js \<Rightarrow> ('a \<Rightarrow> 'b js) \<Rightarrow> 'b js" where
  "js_bind m f = (\<lambda>s. case m s of (Inl e, s') \<Rightarrow> (Inl e, s') | (Inr x, s') \<Rightarrow> f x s')"

text \<open>\<^verbatim>\<open>try { m } catch (error) { h }\<close>\<close>

definition js_try :: "'a js \<Rightarrow> (js_error \<Rightarrow> 'a js) \<Rightarrow> 'a js" where
  "js_try m h = (\<lambda>s. case m s of (Inl e, s') \<Rightarrow> h e s' | (Inr x, s') \<Rightarrow> (Inr x, s'))"

text \<open>
  A promise is the computation that runs when it is awaited. The call \<^verbatim>\<open>axios.get(url)\<close>
  issues the request and returns at once, with the promise of the response; awaiting
  that promise resumes with the response, or throws what it was rejected with.
  \<^verbatim>\<open>Promise.all\<close> of promises that are all fulfilled gives the array of their values. The
  upstream may settle the calls of one \<^verbatim>\<open>Promise.all\<close> in any order; here they are taken
  up in the order of the array, and no property below depends on that order.
\<close>

type_synonym 'a promise = "'a js"

definition await_response :: "env \<Rightarrow> jsstring \<Rightarrow> axios_response promise" where
  "await_response env url = (\<lambda>s. (axios_get env url, s\<lparr>timeline := timeline s @ [Settled url]\<rparr>))"

definition http_get :: "env \<Rightarrow> jsstring \<Rightarrow> axios_response promise js" where
  "http_get env url =
     (\<lambda>s. (Inr (await_response env url),
           s\<lparr>requested := requested s @ [url], timeline := timeline s @ [Issued url]\<rparr>))"

definition await :: "'a promise js \<Rightarrow> 'a js" where
  "await call = js_bind call (\<lambda>promise. promise)"

fun promise_all :: "'a promise list \<Rightarrow> 'a list js" where
  "promise_all [] = js_return []"
| "promise_all (p # ps) =
     js_bind p (\<lambda>x. js_bind (promise_all ps) (\<lambda>xs. js_return (x # xs)))"

text \<open>The destructuring \<^verbatim>\<open>const [a, b, c] = results\<close>: \<^verbatim>\<open>undefined\<close> beyond the end.\<close>

definition element :: "jsval list \<Rightarrow> nat \<Rightarrow> jsval" where
  "element results i = (if i < length results then results ! i else JUndefined)"

definition console_error :: "jsval list \<Rightarrow> unit js" where
  "console_error args = (\<lambda>s. (Inr (), s\<lparr>console := console s @ [args]\<rparr>))"

definition res_render :: "nat \<Rightarrow> string \<Rightarrow> (string \<times> jsval) list \<Rightarrow> response js" where
  "res_render code v locals = js_return (Render code (js v) (map (\<lambda>(k, x). (js k, x)) locals))"

definition res_json :: "nat \<Rightarrow> jsval \<Rightarrow> response js" where
  "res_json code b = js_return (Json code b)"

section \<open>The upstream client\<close>

definition API_BASE_URL :: jsstring where
  "API_BASE_URL = js ''https://animekai-6wq1.onrender.com''"

text \<open>
  \<^verbatim>\<open>apiCall\<close> is an \<^verbatim>\<open>async\<close> function. A call of it runs its body up to the \<^verbatim>\<open>await\<close>, which
  issues the request (\<^verbatim>\<open>axios.get\<close> itself does not throw), and returns the promise of
  the rest: the \<^verbatim>\<open>try\<close> block from the \<^verbatim>\<open>await\<close> on, and the \<^verbatim>\<open>catch\<close> block.
  \<open>apiCall\<close> is the call awaited at once, \<^verbatim>\<open>await apiCall(endpoint)\<close>.
\<close>

definition apiCall_start :: "env \<Rightarrow> jsstring \<Rightarrow> jsval promise js" where
  "apiCall_start env endpoint =
     js_bind (http_get env (API_BASE_URL @ endpoint)) (\<lambda>pending.
     js_return
       (js_try
          (js_bind pending (\<lambda>response.
           js_return (data response)))
          (\<lambda>error.
           js_bind (console_error [JStr (js ''API Error for '' @ endpoint @ js '':''), message env error])
             (\<lambda>_.
           js_return (JObj [(js ''success'', JBool False), (js ''error'', message env error)])))))"

definition apiCall :: "env \<Rightarrow> jsstring \<Rightarrow> jsval js" where
  "apiCall env endpoint = await (apiCall_start env endpoint)"

section \<open>The route handlers\<close>

text \<open>The operators \<^verbatim>\<open>c ? a : b\<close> and \<^verbatim>\<open>a && b\<close>: the operand not chosen is not evaluated.\<close>

definition cond :: "js_error + jsval \<Rightarrow> js_error + 'a \<Rightarrow> js_error + 'a \<Rightarrow> js_error + 'a" where
  "cond c a b = ebind c (\<lambda>v. if truthy v then a else b)"

definition and_also :: "js_error + jsval \<Rightarrow> js_error + jsval \<Rightarrow> js_error + jsval" where
  "and_also a b = ebind a (\<lambda>v. if truthy v then b else Inr v)"

text \<open>\<^verbatim>\<open>res.render('error', { message: m, title: 'Error' })\<close>, as every handler writes it.\<close>

definition render_error :: "string \<Rightarrow> response js" where
  "render_error m =
     res_render 200 ''error'' [(''message'', JStr (js m)), (''title'', JStr (js ''Error''))]"

subsection \<open>\<^verbatim>\<open>app.get('/')\<close>\<close>

definition home_try :: "env \<Rightarrow> request \<Rightarrow> response js" where
  "home_try env req =
     js_bind (apiCall env (js ''/api/v1/home'')) (\<lambda>homeData.
     js_bind (js_lift (get_prop homeData (js ''success''))) (\<lambda>success.
       if truthy success then
         js_bind (js_lift (get_prop homeData (js ''data''))) (\<lambda>d.
         res_render 200 ''home'' [(''data'', d), (''title'', JStr (js ''AnimeKai - Home''))])
       else render_error ''Failed to load home data''))"

definition home :: "env \<Rightarrow> request \<Rightarrow> response js" where
  "home env req = js_try (home_try env req) (\<lambda>error. render_error ''Server error occurred'')"

subsection \<open>\<^verbatim>\<open>app.get('/anime/:id')\<close>\<close>

text \<open>The substitution \<^verbatim>\<open>${animeData.data.title}\<close> of the page titles.\<close>

definition data_title :: "jsval \<Rightarrow> js_error + jsval" where
  "data_title animeData = ebind (get_prop animeData (js ''data'')) (\<lambda>d. get_prop d (js ''title''))"

definition anime_details_try :: "env \<Rightarrow> request \<Rightarrow> response js" where
  "anime_details_try env req =
     (let animeId = req_params req (js ''id'') in
      js_bind (js_lift (template [Lit (js ''/api/v1/anime/''), Sub (Inr animeId)])) (\<lambda>endpoint.
      js_bind (apiCall env endpoint) (\<lambda>animeData.
      js_bind (js_lift (get_prop animeData (js ''success''))) (\<lambda>success.
        if truthy success then
          js_bind (js_lift (get_prop animeData (js ''data''))) (\<lambda>anime.
          js_bind (js_lift (template [Sub (data_title animeData), Lit (js '' - AnimeKai'')])) (\<lambda>title.
          res_render 200 ''anime-details'' [(''anime'', anime), (''title'', JStr title)]))
        else render_error ''Anime not found''))))"

definition anime_details :: "env \<Rightarrow> request \<Rightarrow> response js" where
  "anime_details env req =
     js_try (anime_details_try env req) (\<lambda>error. render_error ''Failed to load anime details'')"

subsection \<open>\<^verbatim>\<open>app.get('/anime/:id/episodes')\<close>\<close>

text \<open>
  The elements of the array given to \<^verbatim>\<open>Promise.all\<close> are evaluated from left to right,
  each \<^verbatim>\<open>apiCall\<close> issuing its request as it is called, and the handler awaits the
  promises only then, all at once.
\<close>

definition episodes_try :: "env \<Rightarrow> request \<Rightarrow> response js" where
  "episodes_try env req =
     (let animeId = req_params req (js ''id'') in
      js_bind (js_lift (template [Lit (js ''/api/v1/anime/''), Sub (Inr animeId)])) (\<lambda>endpoint1.
      js_bind (apiCall_start env endpoint1) (\<lambda>promise1.
      js_bind (js_lift (template [Lit (js ''/api/v1/episodes/''), Sub (Inr animeId)])) (\<lambda>endpoint2.
      js_bind (apiCall_start env endpoint2) (\<lambda>promise2.
      js_bind (promise_all [promise1, promise2]) (\<lambda>results.
      (let animeData = element results 0;
           episodesData = element results 1
       in
      js_bind (js_lift (and_also (get_prop animeData (js ''success''))
                                 (get_prop episodesData (js ''success'')))) (\<lambda>success.
        if truthy success then
          js_bind (js_lift (get_prop animeData (js ''data''))) (\<lambda>anime.
          js_bind (js_lift (get_prop episodesData (js ''data''))) (\<lambda>episodes.
          js_bind (js_lift (template [Sub (data_title animeData), Lit (js '' Episodes - AnimeKai'')]))
            (\<lambda>title.
          res_render 200 ''episodes''
            [(''anime'', anime), (''episodes'', episodes), (''title'', JStr title)])))
        else render_error ''Failed to load episodes''))))))))"

definition episodes :: "env \<Rightarrow> request \<Rightarrow> response js" where
  "episodes env req =
     js_try (episodes_try env req) (\<lambda>error. render_error ''Failed to load episodes'')"

subsection \<open>\<^verbatim>\<open>app.get('/watch/:animeId')\<close>\<close>

definition watch_try :: "env \<Rightarrow> request \<Rightarrow> response js" where
  "watch_try env req =
     (let animeId = req_params req (js ''animeId'');
          episodeParam = js_or (req_query req (js ''ep'')) (JStr (js ''1''));
          serverParam = js_or (req_query req (js ''server'')) (JStr (js ''HD-1''));
          typeParam = js_or (req_query req (js ''type'')) (JStr (js ''sub''))
      in
      js_bind (js_lift (template [Sub (Inr animeId), Lit (js ''::ep=''), Sub (Inr episodeParam)]))
        (\<lambda>serverId.
      js_bind (js_lift (template
          [Lit (js ''/api/v1/anime/''),
           Sub (ebind (str_method (js ''split'') animeId (split (of_char CHR ''?'')))
                  (\<lambda>parts. Inr (index parts 0)))])) (\<lambda>endpoint1.
      js_bind (apiCall_start env endpoint1) (\<lambda>promise1.
      js_bind (js_lift (template [Lit (js ''/api/v1/servers?id=''), Sub (Inr (JStr serverId))]))
        (\<lambda>endpoint2.
      js_bind (apiCall_start env endpoint2) (\<lambda>promise2.
      js_bind (js_lift (template
          [Lit (js ''/api/v1/stream?server=''), Sub (Inr serverParam),
           Lit (js ''&type=''), Sub (Inr typeParam),
           Lit (js ''&id=''), Sub (Inr (JStr serverId))])) (\<lambda>endpoint3.
      js_bind (apiCall_start env endpoint3) (\<lambda>promise3.
      js_bind (promise_all [promise1, promise2, promise3]) (\<lambda>results.
      (let animeData = element results 0;
           serversData = element results 1;
           streamData = element results 2
       in
      js_bind (js_lift (get_prop animeData (js ''success''))) (\<lambda>success.
        if truthy success then
          js_bind (js_lift (get_prop animeData (js ''data''))) (\<lambda>anime.
          js_bind (js_lift (cond (get_prop serversData (js ''success''))
                                 (get_prop serversData (js ''data'')) (Inr JNull))) (\<lambda>servers.
          js_bind (js_lift (cond (get_prop streamData (js ''success''))
                                 (get_prop streamData (js ''data'')) (Inr JNull))) (\<lambda>stream.
          js_bind (js_lift (template
              [Lit (js ''Watch ''), Sub (data_title animeData),
               Lit (js '' Episode ''), Sub (Inr episodeParam), Lit (js '' - AnimeKai'')]))
            (\<lambda>title.
          res_render 200 ''watch''
            [(''anime'', anime), (''servers'', servers), (''streamData'', stream),
             (''currentEpisode'', episodeParam), (''currentServer'', serverParam),
             (''currentType'', typeParam), (''title'', JStr title)]))))
        else render_error ''Failed to load watch page'')))))))))))"

definition watch :: "env \<Rightarrow> request \<Rightarrow> response js" where
  "watch env req =
     js_try (watch_try env req) (\<lambda>error. render_error ''Failed to load watch page'')"

subsection \<open>\<^verbatim>\<open>app.get('/search')\<close>\<close>

definition search_try :: "env \<Rightarrow> request \<Rightarrow> response js" where
  "search_try env req =
     (let keyword = js_or (req_query req (js ''keyword'')) (JStr []);
          page = js_or (req_query req (js ''page'')) (JNum (js ''1''))
      in
      if \<not> truthy keyword then
        res_render 200 ''search''
          [(''results'', JNull), (''keyword'', JStr []),
           (''title'', JStr (js ''Search - AnimeKai''))]
      else
        js_bind (js_lift (template
            [Lit (js ''/api/v1/search?keyword=''),
             Sub (ebind (encodeURIComponent keyword) (\<lambda>s. Inr (JStr s))),
             Lit (js ''&page=''), Sub (Inr page)])) (\<lambda>endpoint.
        js_bind (apiCall env endpoint) (\<lambda>searchData.
        js_bind (js_lift (cond (get_prop searchData (js ''success''))
                               (get_prop searchData (js ''data'')) (Inr JNull))) (\<lambda>results.
        js_bind (js_lift (js_parseInt env page)) (\<lambda>currentPage.
        js_bind (js_lift (template
            [Lit (js ''Search: ''), Sub (Inr keyword), Lit (js '' - AnimeKai'')])) (\<lambda>title.
        res_render 200 ''search''
          [(''results'', results), (''keyword'', keyword), (''currentPage'', currentPage),
           (''title'', JStr title)]))))))"

definition search :: "env \<Rightarrow> request \<Rightarrow> response js" where
  "search env req =
     js_try (search_try env req) (\<lambda>error.
       res_render 200 ''search''
         [(''results'', JNull),
          (''keyword'', js_or (req_query req (js ''keyword'')) (JStr [])),
          (''title'', JStr (js ''Search - AnimeKai''))])"

subsection \<open>\<^verbatim>\<open>app.get('/browse/:query/:category?')\<close>\<close>

definition browse_try :: "env \<Rightarrow> request \<Rightarrow> response js" where
  "browse_try env req =
     (let query = req_params req (js ''query'');
          category = js_or (req_params req (js ''category'')) (JStr []);
          page = js_or (req_query req (js ''page'')) (JNum (js ''1''))
      in
      js_bind (js_lift (template [Lit (js ''/api/v1/animes/''), Sub (Inr query)])) (\<lambda>endpoint0.
      js_bind (js_lift (if truthy category
                        then ebind (template [Lit (js ''/''), Sub (Inr category)])
                               (\<lambda>s. Inr (endpoint0 @ s))
                        else Inr endpoint0)) (\<lambda>endpoint1.
      js_bind (js_lift (ebind (template [Lit (js ''?page=''), Sub (Inr page)])
                          (\<lambda>s. Inr (endpoint1 @ s)))) (\<lambda>endpoint.
      js_bind (apiCall env endpoint) (\<lambda>browseData.
      js_bind (js_lift (get_prop browseData (js ''success''))) (\<lambda>success.
        if truthy success then
          js_bind (js_lift (get_prop browseData (js ''data''))) (\<lambda>d.
          js_bind (js_lift (js_parseInt env page)) (\<lambda>currentPage.
          js_bind (js_lift (template
              [Lit (js ''Browse ''),
               Sub (str_method (js ''replace'') query
                      (\<lambda>s. JStr (toUpperCase env (replace (of_char CHR ''-'') (of_char CHR '' '') s)))),
               Lit (js '' - AnimeKai'')])) (\<lambda>title.
          res_render 200 ''browse''
            [(''data'', d), (''query'', query), (''category'', category),
             (''currentPage'', currentPage), (''title'', JStr title)])))
        else render_error ''Failed to load browse data''))))))"

definition browse :: "env \<Rightarrow> request \<Rightarrow> response js" where
  "browse env req =
     js_try (browse_try env req) (\<lambda>error. render_error ''Failed to load browse data'')"

subsection \<open>The JSON routes \<^verbatim>\<open>/api/suggestions\<close>, \<^verbatim>\<open>/api/servers\<close> and \<^verbatim>\<open>/api/stream\<close>\<close>

text \<open>\<^verbatim>\<open>res.json({ success: false, message: m })\<close> and the \<^verbatim>\<open>catch\<close> block of the three.\<close>

definition json_required :: "string \<Rightarrow> response js" where
  "json_required m =
     res_json 200 (JObj [(js ''success'', JBool False), (js ''message'', JStr (js m))])"

definition json_caught :: "env \<Rightarrow> js_error \<Rightarrow> response js" where
  "json_caught env error =
     res_json 200 (JObj [(js ''success'', JBool False), (js ''error'', message env error)])"

definition api_suggestions_try :: "env \<Rightarrow> request \<Rightarrow> response js" where
  "api_suggestions_try env req =
     (let keyword = req_query req (js ''keyword'') in
      if \<not> truthy keyword then json_required ''Keyword required''
      else
        js_bind (js_lift (template
            [Lit (js ''/api/v1/search/suggestion?keyword=''),
             Sub (ebind (encodeURIComponent keyword) (\<lambda>s. Inr (JStr s)))])) (\<lambda>endpoint.
        js_bind (apiCall env endpoint) (\<lambda>suggestions.
        res_json 200 suggestions)))"

definition api_suggestions :: "env \<Rightarrow> request \<Rightarrow> response js" where
  "api_suggestions env req = js_try (api_suggestions_try env req) (json_caught env)"

definition api_servers_try :: "env \<Rightarrow> request \<Rightarrow> response js" where
  "api_servers_try env req =
     (let id = req_query req (js ''id'') in
      if \<not> truthy id then json_required ''ID required''
      else
        js_bind (js_lift (template [Lit (js ''/api/v1/servers?id=''), Sub (Inr id)])) (\<lambda>endpoint.
        js_bind (apiCall env endpoint) (\<lambda>servers.
        res_json 200 servers)))"

definition api_servers :: "env \<Rightarrow> request \<Rightarrow> response js" where
  "api_servers env req = js_try (api_servers_try env req) (json_caught env)"

definition api_stream_try :: "env \<Rightarrow> request \<Rightarrow> response js" where
  "api_stream_try env req =
     (let id = req_query req (js ''id'');
          server = req_query req (js ''server'');
          type = req_query req (js ''type'')
      in
      if \<not> truthy id \<or> \<not> truthy server \<or> \<not> truthy type
      then json_required ''Missing required parameters''
      else
        js_bind (js_lift (template
            [Lit (js ''/api/v1/stream?server=''), Sub (Inr server),
             Lit (js ''&type=''), Sub (Inr type),
             Lit (js ''&id=''), Sub (Inr id)])) (\<lambda>endpoint.
        js_bind (apiCall env endpoint) (\<lambda>stream.
        res_json 200 stream)))"

definition api_stream :: "env \<Rightarrow> request \<Rightarrow> response js" where
  "api_stream env req = js_try (api_stream_try env req) (json_caught env)"

section \<open>The application\<close>

text \<open>The 404 handler and the error handler, the last two \<^verbatim>\<open>app.use\<close>.\<close>

definition not_found :: "request \<Rightarrow> response js" where
  "not_found req =
     res_render 404 ''error''
       [(''message'', JStr (js ''Page not found'')), (''title'', JStr (js ''404 - Not Found''))]"

definition error_handler :: "env \<Rightarrow> js_error \<Rightarrow> request \<Rightarrow> response js" where
  "error_handler env err req =
     js_bind (console_error [stack env err]) (\<lambda>_.
     res_render 500 ''error''
       [(''message'', JStr (js ''Something went wrong!'')),
        (''title'', JStr (js ''500 - Server Error''))])"

text \<open>The \<open>try\<close> block of a route's handler, and the handler.\<close>

fun handler_try :: "route \<Rightarrow> env \<Rightarrow> request \<Rightarrow> response js" where
  "handler_try Home = home_try"
| "handler_try AnimeDetails = anime_details_try"
| "handler_try Episodes = episodes_try"
| "handler_try Watch = watch_try"
| "handler_try Search = search_try"
| "handler_try Browse = browse_try"
| "handler_try ApiSuggestions = api_suggestions_try"
| "handler_try ApiServers = api_servers_try"
| "handler_try ApiStream = api_stream_try"

fun handler :: "route \<Rightarrow> env \<Rightarrow> request \<Rightarrow> response js" where
  "handler Home = home"
| "handler AnimeDetails = anime_details"
| "handler Episodes = episodes"
| "handler Watch = watch"
| "handler Search = search"
| "handler Browse = browse"
| "handler ApiSuggestions = api_suggestions"
| "handler ApiServers = api_servers"
| "handler ApiStream = api_stream"

text \<open>
  What the client gets: a response that \<^verbatim>\<open>server.js\<close> sends, the answer of a
  middleware, or, when the promise of a handler rejects, whatever Express does with a
  rejected handler.
\<close>

datatype outcome = Sent response | ByMiddleware | Unhandled js_error

definition settle :: "response js \<Rightarrow> io \<Rightarrow> outcome \<times> io" where
  "settle m s = (case m s of (Inr r, s') \<Rightarrow> (Sent r, s') | (Inl e, s') \<Rightarrow> (Unhandled e, s'))"

definition app :: "env \<Rightarrow> request \<Rightarrow> io \<Rightarrow> outcome \<times> io" where
  "app env req s =
     (case middleware env req of
        Answered \<Rightarrow> (ByMiddleware, s)
      | Failed err \<Rightarrow> settle (error_handler env err req) s
      | Next \<Rightarrow>
          (case matched req of
             Some r \<Rightarrow> settle (handler r env req) s
           | None \<Rightarrow> settle (not_found req) s))"

section \<open>Notions the properties are stated with\<close>

text \<open>
  The test \<^verbatim>\<open>v.success\<close> of the handlers passes, the value of \<^verbatim>\<open>v.data\<close>, and the text
  of the substitution \<^verbatim>\<open>${v.data.title}\<close>.
\<close>

definition succeeded :: "jsval \<Rightarrow> bool" where
  "succeeded v = (case get_prop v (js ''success'') of Inr s \<Rightarrow> truthy s | Inl e \<Rightarrow> False)"

definition payload :: "jsval \<Rightarrow> jsval" where
  "payload v = (case get_prop v (js ''data'') of Inr d \<Rightarrow> d | Inl e \<Rightarrow> JUndefined)"

definition title_text :: "jsval \<Rightarrow> js_error + jsstring" where
  "title_text v = ebind (data_title v) to_string"

text \<open>
  The text a query parameter stands for when it is a string or absent: the default
  replaces an absent and an empty parameter.
\<close>

definition text_or :: "jsval option \<Rightarrow> jsstring \<Rightarrow> jsstring option" where
  "text_or q d =
     (case q of
        None \<Rightarrow> Some d
      | Some (JStr x) \<Rightarrow> Some (if x = [] then d else x)
      | Some _ \<Rightarrow> None)"

text \<open>
  What \<^verbatim>\<open>apiCall\<close> returns for an endpoint, and the effects it leaves when its request
  is issued and when it settles.
\<close>

definition upstream :: "env \<Rightarrow> jsstring \<Rightarrow> jsval" where
  "upstream env endpoint =
     (case axios_get env (API_BASE_URL @ endpoint) of
        Inr response \<Rightarrow> data response
      | Inl error \<Rightarrow> JObj [(js ''success'', JBool False), (js ''error'', message env error)])"

definition issued :: "jsstring \<Rightarrow> io \<Rightarrow> io" where
  "issued endpoint s =
     s\<lparr>requested := requested s @ [API_BASE_URL @ endpoint],
       timeline := timeline s @ [Issued (API_BASE_URL @ endpoint)]\<rparr>"

definition settled :: "env \<Rightarrow> jsstring \<Rightarrow> io \<Rightarrow> io" where
  "settled env endpoint s =
     (case axios_get env (API_BASE_URL @ endpoint) of
        Inr response \<Rightarrow> s\<lparr>timeline := timeline s @ [Settled (API_BASE_URL @ endpoint)]\<rparr>
      | Inl error \<Rightarrow>
          s\<lparr>console := console s @
              [[JStr (js ''API Error for '' @ endpoint @ js '':''), message env error]],
            timeline := timeline s @ [Settled (API_BASE_URL @ endpoint)]\<rparr>)"

definition called :: "env \<Rightarrow> jsstring \<Rightarrow> io \<Rightarrow> io" where
  "called env endpoint s = settled env endpoint (issued endpoint s)"

text \<open>The promise a call of \<^verbatim>\<open>apiCall\<close> returns.\<close>

definition in_flight :: "env \<Rightarrow> jsstring \<Rightarrow> jsval promise" where
  "in_flight env endpoint = (\<lambda>s. (Inr (upstream env endpoint), settled env endpoint s))"

text \<open>
  What the routes answer when the upstream fails: the error view, a JSON body with
  \<^verbatim>\<open>success: false\<close>, and for \<^verbatim>\<open>/search\<close> the search view with \<^verbatim>\<open>results: null\<close>.
\<close>

definition error_page :: "response \<Rightarrow> bool" where
  "error_page r =
     (case r of
        Render code v locals \<Rightarrow>
          code = 200 \<and> v = js ''error'' \<and> map_of locals (js ''title'') = Some (JStr (js ''Error''))
      | Json code b \<Rightarrow> False)"

definition json_failure :: "response \<Rightarrow> bool" where
  "json_failure r =
     (case r of
        Render code v locals \<Rightarrow> False
      | Json code b \<Rightarrow> code = 200 \<and> get_prop b (js ''success'') = Inr (JBool False))"

definition search_without_results :: "response \<Rightarrow> bool" where
  "search_without_results r =
     (case r of
        Render code v locals \<Rightarrow>
          code = 200 \<and> v = js ''search'' \<and> map_of locals (js ''results'') = Some JNull
      | Json code b \<Rightarrow> False)"

text \<open>
  What the \<^verbatim>\<open>catch\<close> block of a route answers to the error it caught: the error view
  with the message of the route, for \<^verbatim>\<open>/search\<close> the search view with \<^verbatim>\<open>results: null\<close>,
  and for the JSON routes the body \<^verbatim>\<open>{ success: false, error: error.message }\<close>.
\<close>

definition error_view :: "string \<Rightarrow> response" where
  "error_view m =
     Render 200 (js ''error'') [(js ''message'', JStr (js m)), (js ''title'', JStr (js ''Error''))]"

fun caught :: "route \<Rightarrow> env \<Rightarrow> request \<Rightarrow> js_error \<Rightarrow> response" where
  "caught Home env req error = error_view ''Server error occurred''"
| "caught AnimeDetails env req error = error_view ''Failed to load anime details''"
| "caught Episodes env req error = error_view ''Failed to load episodes''"
| "caught Watch env req error = error_view ''Failed to load watch page''"
| "caught Browse env req error = error_view ''Failed to load browse data''"
| "caught Search env req error =
     Render 200 (js ''search'')
       [(js ''results'', JNull),
        (js ''keyword'', js_or (req_query req (js ''keyword'')) (JStr [])),
        (js ''title'', JStr (js ''Search - AnimeKai''))]"
| "caught ApiSuggestions env req error =
     Json 200 (JObj [(js ''success'', JBool False), (js ''error'', message env error)])"
| "caught ApiServers env req error =
     Json 200 (JObj [(js ''success'', JBool False), (js ''error'', message env error)])"
| "caught ApiStream env req error =
     Json 200 (JObj [(js ''success'', JBool False), (js ''error'', message env error)])"

fun degraded :: "route \<Rightarrow> response \<Rightarrow> bool" where
  "degraded Search r = search_without_results r"
| "degraded ApiSuggestions r = json_failure r"
| "degraded ApiServers r = json_failure r"
| "degraded ApiStream r = json_failure r"
| "degraded Home r = error_page r"
| "degraded AnimeDetails r = error_page r"
| "degraded Episodes r = error_page r"
| "degraded Watch r = error_page r"
| "degraded Browse r = error_page r"

section \<open>Examples\<close>

text \<open>
  An upstream given by the bodies it serves: a URL in the table resolves with its body,
  every other URL is rejected the way axios rejects a 404.
\<close>

definition example_upstream :: "(jsstring \<times> jsval) list \<Rightarrow> jsstring \<Rightarrow> js_error + axios_response" where
  "example_upstream bodies url =
     (case map_of bodies url of
        Some d \<Rightarrow> Inr \<lparr>data = d\<rparr>
      | None \<Rightarrow> Inl (Rejection (JStr (js ''Request failed with status code 404''))))"

text \<open>
  Stand-ins for the built-ins, right on the strings of the examples: \<^verbatim>\<open>parseInt\<close> on a
  string of at most 15 decimal digits without a leading zero, \<^verbatim>\<open>toUpperCase\<close> on ASCII.
\<close>

definition example_parseInt :: "jsstring \<Rightarrow> jsval" where
  "example_parseInt s =
     (if s \<noteq> [] \<and> length s \<le> 15 \<and> list_all (\<lambda>c. 0x30 \<le> c \<and> c \<le> 0x39) s \<and>
         (hd s \<noteq> 0x30 \<or> length s = 1)
      then JNum s else JNum (js ''NaN''))"

definition example_toUpperCase :: "jsstring \<Rightarrow> jsstring" where
  "example_toUpperCase s = map (\<lambda>c. if 0x61 \<le> c \<and> c \<le> 0x7A then c - 0x20 else c) s"

fun example_message :: "js_error \<Rightarrow> jsstring" where
  "example_message (CannotRead v k) =
     js ''Cannot read properties of '' @ (if v = JNull then js ''null'' else js ''undefined'') @
     js '' (reading '' @ [0x27] @ k @ [0x27] @ js '')''"
| "example_message (NotAFunction name) = name @ js '' is not a function''"
| "example_message (NoPrimitive v) = js ''Cannot convert object to primitive value''"
| "example_message URIMalformed = js ''URI malformed''"
| "example_message (Rejection m) = []"

definition example_env :: "(jsstring \<times> jsval) list \<Rightarrow> env" where
  "example_env bodies =
     \<lparr>axios_get = example_upstream bodies,
      parseInt = example_parseInt,
      toUpperCase = example_toUpperCase,
      engine_message = example_message,
      stack = (\<lambda>err. JStr (example_message err)),
      middleware = (\<lambda>req. Next)\<rparr>"

definition example_request :: "route option \<Rightarrow> (string \<times> string) list \<Rightarrow> (string \<times> jsval) list \<Rightarrow> request" where
  "example_request r ps qs =
     \<lparr>matched = r,
      params = map_of (map (\<lambda>(k, v). (js k, js v)) ps),
      query = map_of (map (\<lambda>(k, v). (js k, v)) qs)\<rparr>"

definition io0 :: io where
  "io0 = \<lparr>requested = [], console = [], timeline = []\<rparr>"

text \<open>
  Bodies, upstreams and requests of the examples: a successful envelope, an upstream
  that serves anime 7, one that serves it with \<^verbatim>\<open>data: null\<close>, one that serves a
  \<^verbatim>\<open>null\<close> server list, and one that is unreachable.
\<close>

definition ok :: "jsval \<Rightarrow> jsval" where
  "ok d = JObj [(js ''success'', JBool True), (js ''data'', d)]"

definition frieren :: jsval where
  "frieren = JObj [(js ''title'', JStr (js ''Frieren''))]"

definition env_up :: env where
  "env_up = example_env
     [(API_BASE_URL @ js ''/api/v1/anime/7'', ok frieren),
      (API_BASE_URL @ js ''/api/v1/episodes/7'', ok (JArr [])),
      (API_BASE_URL @ js ''/api/v1/servers?id=7::ep=1'', ok (JArr [JStr (js ''HD-1'')]))]"

definition env_null_data :: env where
  "env_null_data = example_env
     [(API_BASE_URL @ js ''/api/v1/anime/7'', ok JNull),
      (API_BASE_URL @ js ''/api/v1/episodes/7'', ok (JArr []))]"

definition env_null_servers :: env where
  "env_null_servers = example_env
     [(API_BASE_URL @ js ''/api/v1/anime/7'', ok frieren),
      (API_BASE_URL @ js ''/api/v1/servers?id=7::ep=1'', ok JNull)]"

definition env_down :: env where
  "env_down = example_env []"

definition episodes_of_7 :: request where
  "episodes_of_7 = example_request (Some Episodes) [(''id'', ''7'')] []"

definition watch_7 :: request where
  "watch_7 = example_request (Some Watch) [(''animeId'', ''7'')] []"

text \<open>
  The requests \<^verbatim>\<open>/watch/42?ep=3\<close> and \<^verbatim>\<open>/watch/42%3Fx?ep=3\<close>, whose path parameter Express
  decodes to \<^verbatim>\<open>42?x\<close>.
\<close>

definition watch_42 :: request where
  "watch_42 = example_request (Some Watch) [(''animeId'', ''42'')] [(''ep'', JStr (js ''3''))]"

definition watch_42x :: request where
  "watch_42x = example_request (Some Watch) [(''animeId'', ''42?x'')] [(''ep'', JStr (js ''3''))]"

text \<open>
  The requests \<^verbatim>\<open>/search?keyword=a%20b%26c\<close>, whose keyword Express decodes to
  \<^verbatim>\<open>a b&c\<close>, and \<^verbatim>\<open>/api/servers?id=7%26x%3D1\<close>, whose id it decodes to \<^verbatim>\<open>7&x=1\<close>.
\<close>

definition search_a_b_c :: request where
  "search_a_b_c = example_request (Some Search) [] [(''keyword'', JStr (js ''a b&c''))]"

definition servers_7_x :: request where
  "servers_7_x = example_request (Some ApiServers) [] [(''id'', JStr (js ''7&x=1''))]"

text \<open>
  An upstream that answers \<^verbatim>\<open>/api/v1/anime/7\<close> with the JSON value \<^verbatim>\<open>null\<close>, and a
  world in which every request fails before the routes, as a path with a malformed
  percent escape does.
\<close>

definition env_null_body :: env where
  "env_null_body = example_env [(API_BASE_URL @ js ''/api/v1/anime/7'', JNull)]"

definition env_rejecting :: env where
  "env_rejecting = env_down\<lparr>middleware := (\<lambda>req. Failed URIMalformed)\<rparr>"

text \<open>
  An upstream that answers \<^verbatim>\<open>/api/v1/home\<close> with the JSON value \<^verbatim>\<open>null\<close>, and the request
  \<^verbatim>\<open>/\<close>.
\<close>

definition env_null_home :: env where
  "env_null_home = example_env [(API_BASE_URL @ js ''/api/v1/home'', JNull)]"

definition home_request :: request where
  "home_request = example_request (Some Home) [] []"

section \<open>String literals\<close>

lemma of_char_16_inject: "(of_char c :: 16 word) = of_char d \<longleftrightarrow> c = d"
proof
  assume eq: "(of_char c :: 16 word) = of_char d"
  have small: "take_bit 16 (of_char x :: nat) = of_char x" for x
  proof (rule take_bit_nat_eq_self)
    have "(of_char x :: nat) < 256"
      by simp
    also have "(256 :: nat) < 2 ^ 16"
      by simp
    finally show "(of_char x :: nat) < 2 ^ 16" .
  qed
  have "(word_of_nat (of_char c) :: 16 word) = word_of_nat (of_char d)"
    using eq by (simp only: of_nat_of_char)
  then have "take_bit LENGTH(16) (of_char c :: nat) = take_bit LENGTH(16) (of_char d :: nat)"
    by (simp only: word_of_nat_eq_iff)
  then have "(of_char c :: nat) = of_char d"
    using small by simp
  then show "c = d"
    by simp
qed simp

lemma js_inject [simp]: "js a = js b \<longleftrightarrow> a = b"
proof -
  have "inj (of_char :: char \<Rightarrow> 16 word)"
    by (rule injI) (simp only: of_char_16_inject)
  then show ?thesis
    unfolding js_def by (rule inj_map_eq_map)
qed

lemma js_Nil [simp]: "js [] = []" "js a = [] \<longleftrightarrow> a = []" "[] = js a \<longleftrightarrow> a = []"
  by (auto simp: js_def)

lemma js_append [simp]: "js a @ js b = js (a @ b)" "js a @ js b @ x = js (a @ b) @ x"
  by (simp_all add: js_def)

section \<open>Running the computations\<close>

lemma apiCall_start_run:
  "apiCall_start env endpoint s = (Inr (in_flight env endpoint), issued endpoint s)"
proof -
  have "js_try
          (js_bind (await_response env (API_BASE_URL @ endpoint)) (\<lambda>response.
           js_return (data response)))
          (\<lambda>error.
           js_bind (console_error [JStr (js ''API Error for '' @ endpoint @ js '':''), message env error])
             (\<lambda>_.
           js_return (JObj [(js ''success'', JBool False), (js ''error'', message env error)]))) =
        in_flight env endpoint"
    by (rule ext)
      (simp add: in_flight_def upstream_def settled_def js_try_def js_bind_def js_return_def
        await_response_def console_error_def split: sum.splits)
  then show ?thesis
    by (simp add: apiCall_start_def js_bind_def js_return_def http_get_def issued_def)
qed

lemma in_flight_run:
  "in_flight env endpoint s = (Inr (upstream env endpoint), settled env endpoint s)"
  by (simp add: in_flight_def)

lemma apiCall_run: "apiCall env endpoint s = (Inr (upstream env endpoint), called env endpoint s)"
  by (simp add: apiCall_def await_def js_bind_def apiCall_start_run in_flight_run called_def)

lemma requested_issued [simp]:
  "requested (issued endpoint s) = requested s @ [API_BASE_URL @ endpoint]"
  by (simp add: issued_def)

lemma requested_settled [simp]: "requested (settled env endpoint s) = requested s"
  by (simp add: settled_def split: sum.splits)

lemma requested_called [simp]:
  "requested (called env endpoint s) = requested s @ [API_BASE_URL @ endpoint]"
  by (simp add: called_def)

lemma timeline_issued [simp]:
  "timeline (issued endpoint s) = timeline s @ [Issued (API_BASE_URL @ endpoint)]"
  by (simp add: issued_def)

lemma timeline_settled [simp]:
  "timeline (settled env endpoint s) = timeline s @ [Settled (API_BASE_URL @ endpoint)]"
  by (simp add: settled_def split: sum.splits)

lemma js_bind_apiCall:
  "js_bind (apiCall env endpoint) f s = f (upstream env endpoint) (called env endpoint s)"
  by (simp add: js_bind_def apiCall_run)

lemma js_bind_start:
  "js_bind (apiCall_start env endpoint) f s = f (in_flight env endpoint) (issued endpoint s)"
  by (simp add: js_bind_def apiCall_start_run)

lemma js_bind_all2:
  "js_bind (promise_all [in_flight env a, in_flight env b]) f s =
     f [upstream env a, upstream env b] (settled env b (settled env a s))"
  by (simp add: js_bind_def js_return_def in_flight_run)

lemma js_bind_all3:
  "js_bind (promise_all [in_flight env a, in_flight env b, in_flight env c]) f s =
     f [upstream env a, upstream env b, upstream env c]
       (settled env c (settled env b (settled env a s)))"
  by (simp add: js_bind_def js_return_def in_flight_run)

text \<open>From here on \<^verbatim>\<open>Promise.all\<close> is run by the two lemmas above.\<close>

declare promise_all.simps [simp del]

lemma element_simps [simp]:
  "element (a # xs) 0 = a"
  "element (a # xs) (Suc n) = element xs n"
  "element (a # b # c # xs) 2 = c"
  by (simp_all add: element_def)

lemma js_bind_lift:
  "js_bind (js_lift r) f s = (case r of Inl e \<Rightarrow> (Inl e, s) | Inr x \<Rightarrow> f x s)"
  by (simp add: js_bind_def js_lift_def split: sum.splits)

lemma js_bind_Inr: "js_bind (js_lift (Inr x)) f s = f x s"
  by (simp add: js_bind_lift)

lemma js_bind_Inl: "js_bind (js_lift (Inl e)) f s = (Inl e, s)"
  by (simp add: js_bind_lift)

lemma res_render_run:
  "res_render c v l s = (Inr (Render c (js v) (map (\<lambda>(k, x). (js k, x)) l)), s)"
  by (simp add: res_render_def js_return_def)

lemma render_error_run:
  "render_error m s =
     (Inr (Render 200 (js ''error'')
             [(js ''message'', JStr (js m)), (js ''title'', JStr (js ''Error''))]), s)"
  by (simp add: render_error_def res_render_run)

lemma res_json_run: "res_json c b s = (Inr (Json c b), s)"
  by (simp add: res_json_def js_return_def)

lemma js_try_run:
  "js_try m h s = (case m s of (Inl e, s') \<Rightarrow> h e s' | (Inr x, s') \<Rightarrow> (Inr x, s'))"
  by (simp add: js_try_def)

lemma upstream_eq: "fst (apiCall env endpoint s) = Inr v \<Longrightarrow> upstream env endpoint = v"
  by (simp add: apiCall_run)

text \<open>The upstream of the examples.\<close>

lemma example_upstream_run:
  "upstream (example_env bodies) endpoint =
     (case map_of bodies (API_BASE_URL @ endpoint) of
        Some d \<Rightarrow> d
      | None \<Rightarrow> JObj [(js ''success'', JBool False),
                       (js ''error'', JStr (js ''Request failed with status code 404''))])"
  by (simp add: upstream_def example_env_def example_upstream_def message_def split: option.splits)

lemma example_request_sel [simp]:
  "matched (example_request r ps qs) = r"
  "params (example_request r ps qs) = map_of (map (\<lambda>(k, v). (js k, js v)) ps)"
  "query (example_request r ps qs) = map_of (map (\<lambda>(k, v). (js k, v)) qs)"
  by (simp_all add: example_request_def)

section \<open>Strings and parameters\<close>

lemma split_hd: "split c s \<noteq> [] \<and> hd (split c s) = takeWhile (\<lambda>x. x \<noteq> c) s"
  by (induction s) (auto split: list.splits)

lemma index_split: "index (split c s) 0 = JStr (takeWhile (\<lambda>x. x \<noteq> c) s)"
  using split_hd [of c s] by (cases "split c s") (simp_all add: index_def)

lemma js_or_text:
  "text_or (query req k) d = Some x \<Longrightarrow> js_or (req_query req k) (JStr d) = JStr x"
  by (auto simp: text_or_def js_or_def req_query_def split: option.splits jsval.splits if_splits)

lemma page_text:
  "text_or (query req k) (js ''1'') = Some x \<Longrightarrow>
   to_string (js_or (req_query req k) (JNum (js ''1''))) = Inr x"
  by (auto simp: text_or_def js_or_def req_query_def split: option.splits jsval.splits if_splits)

section \<open>Reading a result\<close>

lemma success_test:
  "js_bind (js_lift (get_prop v (js ''success''))) (\<lambda>x. if truthy x then f else g) s =
     (if v = JNull \<or> v = JUndefined then (Inl (CannotRead v (js ''success'')), s)
      else if succeeded v then f s else g s)"
  by (cases v) (simp_all add: js_bind_lift get_prop_def succeeded_def)

lemma succeeded_readable: "succeeded v \<Longrightarrow> v \<noteq> JNull \<and> v \<noteq> JUndefined"
  by (cases v) (simp_all add: get_prop_def succeeded_def)

lemma get_data: "v \<noteq> JNull \<Longrightarrow> v \<noteq> JUndefined \<Longrightarrow> get_prop v (js ''data'') = Inr (payload v)"
  by (cases v) (simp_all add: get_prop_def payload_def)

lemma cond_success:
  "cond (get_prop v (js ''success'')) x y =
     (if v = JNull \<or> v = JUndefined then Inl (CannotRead v (js ''success''))
      else if succeeded v then x else y)"
  by (cases v) (simp_all add: cond_def get_prop_def ebind_def succeeded_def)

lemma title_fold:
  "ebind (data_title a) (\<lambda>v. ebind (to_string v) f) = ebind (title_text a) f"
  by (simp add: title_text_def ebind_def split: sum.splits)

lemma ebind_Inr: "ebind (Inr x) f = f x"
  by (simp add: ebind_def)

lemma ebind_Inl: "ebind (Inl e) f = Inl e"
  by (simp add: ebind_def)

section \<open>The alphabet of an encoded keyword\<close>

lemma hexDigits_unreserved: "list_all uriUnreserved (js ''0123456789ABCDEF'')"
  by (simp add: js_def uriUnreserved_def)

lemma hexDigit_unreserved: "uriUnreserved (hexDigit n)"
proof -
  have "n mod 16 < length (js ''0123456789ABCDEF'')"
    by (simp add: js_def)
  then have "js ''0123456789ABCDEF'' ! (n mod 16) \<in> set (js ''0123456789ABCDEF'')"
    by (rule nth_mem)
  with hexDigits_unreserved show ?thesis
    unfolding hexDigit_def list_all_iff by blast
qed

lemma percent_alphabet: "c \<in> set (percent octet) \<Longrightarrow> uriUnreserved c \<or> c = 0x25"
  using hexDigit_unreserved by (auto simp: percent_def)

lemma percents_alphabet:
  "c \<in> set (concat (map percent octets)) \<Longrightarrow> uriUnreserved c \<or> c = 0x25"
  using percent_alphabet by auto

lemma encode_alphabet:
  "encode s = Inr k \<Longrightarrow> c \<in> set k \<Longrightarrow> uriUnreserved c \<or> c = 0x25"
proof (induction s arbitrary: k rule: encode.induct)
  case 1
  then show ?case
    by simp
next
  case (2 u us)
  show ?case
  proof (cases "uriUnreserved u")
    case True
    with 2 show ?thesis
      by (auto simp: ebind_def split: sum.splits)
  next
    case False
    note reserved = this
    show ?thesis
    proof (cases "isLeadingSurrogate u")
      case True
      note leading = this
      from "2.prems"(1) reserved leading obtain d ds r where
        us: "us = d # ds" and trailing: "isTrailingSurrogate d" and r: "encode ds = Inr r" and
        k: "k = concat (map percent (utf8 (codePoint u d))) @ r"
        by (auto simp: ebind_def split: sum.splits list.splits if_splits)
      from "2.prems"(2) k consider "c \<in> set (concat (map percent (utf8 (codePoint u d))))" | "c \<in> set r"
        by auto
      then show ?thesis
      proof cases
        case 1
        then show ?thesis
          by (rule percents_alphabet)
      next
        case 2
        with "2.IH"(2) [OF reserved leading us trailing r] show ?thesis .
      qed
    next
      case False
      note single = this
      from "2.prems"(1) reserved single obtain r where
        r: "encode us = Inr r" and k: "k = concat (map percent (utf8 (unat u))) @ r" and
        lone: "\<not> isTrailingSurrogate u"
        by (auto simp: ebind_def split: sum.splits if_splits)
      from "2.prems"(2) k consider "c \<in> set (concat (map percent (utf8 (unat u))))" | "c \<in> set r"
        by auto
      then show ?thesis
      proof cases
        case 1
        then show ?thesis
          by (rule percents_alphabet)
      next
        case 2
        with "2.IH"(3) [OF reserved single lone r] show ?thesis .
      qed
    qed
  qed
qed

section \<open>The requests of each route\<close>

lemma anime_details_requested:
  assumes "params req (js ''id'') = Some i"
  shows "requested (snd (anime_details env req s)) =
     requested s @ [API_BASE_URL @ js ''/api/v1/anime/'' @ i]"
  using assms
  by (auto simp: anime_details_def anime_details_try_def Let_def js_try_run js_bind_apiCall
      js_bind_lift res_render_run render_error_run req_params_def ebind_def split: sum.splits)

lemma episodes_requested:
  assumes "params req (js ''id'') = Some i"
  shows "requested (snd (episodes env req s)) =
     requested s @ [API_BASE_URL @ js ''/api/v1/anime/'' @ i,
                    API_BASE_URL @ js ''/api/v1/episodes/'' @ i]"
  using assms
  by (auto simp: episodes_def episodes_try_def Let_def js_try_run js_bind_start js_bind_all2
      js_bind_lift res_render_run render_error_run req_params_def ebind_def split: sum.splits)

lemma watch_run:
  assumes "params req (js ''animeId'') = Some i"
    and "text_or (query req (js ''ep'')) (js ''1'') = Some e"
    and "text_or (query req (js ''server'')) (js ''HD-1'') = Some sv"
    and "text_or (query req (js ''type'')) (js ''sub'') = Some ty"
    and "a = upstream env (js ''/api/v1/anime/'' @ takeWhile (\<lambda>c. c \<noteq> of_char CHR ''?'') i)"
    and "sd = upstream env (js ''/api/v1/servers?id='' @ i @ js ''::ep='' @ e)"
    and "st = upstream env (js ''/api/v1/stream?server='' @ sv @ js ''&type='' @ ty @
                              js ''&id='' @ i @ js ''::ep='' @ e)"
  shows "watch env req s =
     (Inr (case title_text a of
             Inr t \<Rightarrow>
               if succeeded a \<and> sd \<noteq> JNull \<and> sd \<noteq> JUndefined \<and> st \<noteq> JNull \<and> st \<noteq> JUndefined
               then Render 200 (js ''watch'')
                      [(js ''anime'', payload a),
                       (js ''servers'', if succeeded sd then payload sd else JNull),
                       (js ''streamData'', if succeeded st then payload st else JNull),
                       (js ''currentEpisode'', JStr e), (js ''currentServer'', JStr sv),
                       (js ''currentType'', JStr ty),
                       (js ''title'', JStr (js ''Watch '' @ t @ js '' Episode '' @ e @ js '' - AnimeKai''))]
               else Render 200 (js ''error'')
                      [(js ''message'', JStr (js ''Failed to load watch page'')),
                       (js ''title'', JStr (js ''Error''))]
           | Inl err \<Rightarrow>
               Render 200 (js ''error'')
                 [(js ''message'', JStr (js ''Failed to load watch page'')),
                  (js ''title'', JStr (js ''Error''))]),
      settled env (js ''/api/v1/stream?server='' @ sv @ js ''&type='' @ ty @
                   js ''&id='' @ i @ js ''::ep='' @ e)
        (settled env (js ''/api/v1/servers?id='' @ i @ js ''::ep='' @ e)
          (settled env (js ''/api/v1/anime/'' @ takeWhile (\<lambda>c. c \<noteq> of_char CHR ''?'') i)
            (issued (js ''/api/v1/stream?server='' @ sv @ js ''&type='' @ ty @
                     js ''&id='' @ i @ js ''::ep='' @ e)
              (issued (js ''/api/v1/servers?id='' @ i @ js ''::ep='' @ e)
                (issued (js ''/api/v1/anime/'' @ takeWhile (\<lambda>c. c \<noteq> of_char CHR ''?'') i)
                   s))))))"
proof -
  have ep: "js_or (req_query req (js ''ep'')) (JStr (js ''1'')) = JStr e"
    using assms(2) by (rule js_or_text)
  have server: "js_or (req_query req (js ''server'')) (JStr (js ''HD-1'')) = JStr sv"
    using assms(3) by (rule js_or_text)
  have type: "js_or (req_query req (js ''type'')) (JStr (js ''sub'')) = JStr ty"
    using assms(4) by (rule js_or_text)
  have id: "req_params req (js ''animeId'') = JStr i"
    using assms(1) by (simp add: req_params_def)
  have split: "ebind (str_method (js ''split'') (JStr i) (split (of_char CHR ''?'')))
                 (\<lambda>parts. Inr (index parts 0)) =
               Inr (JStr (takeWhile (\<lambda>c. c \<noteq> of_char CHR ''?'') i))"
    by (simp add: str_method_def ebind_Inr index_split)
  let ?a = "upstream env (js ''/api/v1/anime/'' @ takeWhile (\<lambda>c. c \<noteq> of_char CHR ''?'') i)"
  note run = js_try_run js_bind_start js_bind_all3 js_bind_Inr js_bind_Inl res_render_run
    render_error_run
    title_fold ebind_Inr ebind_Inl success_test cond_success get_data
  show ?thesis
    unfolding assms(5-7) watch_def watch_try_def Let_def ep server type id split
    by (cases "title_text ?a"; cases "?a = JNull \<or> ?a = JUndefined"; cases "succeeded ?a")
      (auto simp: run dest: succeeded_readable)
qed

lemma watch_requested:
  assumes "params req (js ''animeId'') = Some i"
    and "text_or (query req (js ''ep'')) (js ''1'') = Some e"
    and "text_or (query req (js ''server'')) (js ''HD-1'') = Some sv"
    and "text_or (query req (js ''type'')) (js ''sub'') = Some ty"
  shows "requested (snd (watch env req s)) =
     requested s @
       [API_BASE_URL @ js ''/api/v1/anime/'' @ takeWhile (\<lambda>c. c \<noteq> of_char CHR ''?'') i,
        API_BASE_URL @ js ''/api/v1/servers?id='' @ i @ js ''::ep='' @ e,
        API_BASE_URL @ js ''/api/v1/stream?server='' @ sv @ js ''&type='' @ ty @
          js ''&id='' @ i @ js ''::ep='' @ e]"
  unfolding watch_run [OF assms refl refl refl] by simp

lemma search_requested:
  assumes "query req (js ''keyword'') = Some (JStr kw)" and "kw \<noteq> []"
    and "encode kw = Inr k"
    and "text_or (query req (js ''page'')) (js ''1'') = Some p"
  shows "requested (snd (search env req s)) =
     requested s @ [API_BASE_URL @ js ''/api/v1/search?keyword='' @ k @ js ''&page='' @ p]"
proof -
  have keyword: "js_or (req_query req (js ''keyword'')) (JStr []) = JStr kw"
    using assms(1,2) by (simp add: js_or_def req_query_def)
  have endpoint: "template
      [Lit (js ''/api/v1/search?keyword=''),
       Sub (ebind (encodeURIComponent (JStr kw)) (\<lambda>s. Inr (JStr s))),
       Lit (js ''&page=''), Sub (Inr (js_or (req_query req (js ''page'')) (JNum (js ''1''))))] =
      Inr (js ''/api/v1/search?keyword='' @ k @ js ''&page='' @ p)"
    using assms(3) page_text [OF assms(4)] by (simp add: encodeURIComponent_def ebind_def)
  show ?thesis
    unfolding search_def search_try_def Let_def keyword endpoint
    using assms(2)
    by (auto simp: js_try_run js_bind_apiCall js_bind_lift res_render_run split: sum.splits)
qed

lemma browse_requested:
  assumes "params req (js ''query'') = Some q"
    and "text_or (query req (js ''page'')) (js ''1'') = Some p"
  shows "requested (snd (browse env req s)) =
     requested s @
       [API_BASE_URL @ js ''/api/v1/animes/'' @ q @
          (case params req (js ''category'') of
             None \<Rightarrow> []
           | Some c \<Rightarrow> if c = [] then [] else js ''/'' @ c) @
          js ''?page='' @ p]"
proof -
  have query: "req_params req (js ''query'') = JStr q"
    using assms(1) by (simp add: req_params_def)
  have page: "template [Lit (js ''?page=''), Sub (Inr (js_or (req_query req (js ''page'')) (JNum (js ''1''))))] =
      Inr (js ''?page='' @ p)"
    using page_text [OF assms(2)] by (simp add: ebind_def)
  show ?thesis
    unfolding browse_def browse_try_def Let_def query page
    by (cases "params req (js ''category'')")
      (auto simp: js_try_run js_bind_apiCall js_bind_lift res_render_run render_error_run
        req_params_def js_or_def ebind_def split: sum.splits)
qed

lemma api_suggestions_requested:
  assumes "query req (js ''keyword'') = Some (JStr kw)" and "kw \<noteq> []"
    and "encode kw = Inr k"
  shows "requested (snd (api_suggestions env req s)) =
     requested s @ [API_BASE_URL @ js ''/api/v1/search/suggestion?keyword='' @ k]"
  using assms
  by (simp add: api_suggestions_def api_suggestions_try_def Let_def js_try_run js_bind_apiCall
      js_bind_lift res_json_run req_query_def encodeURIComponent_def ebind_def)

lemma api_servers_requested:
  assumes "query req (js ''id'') = Some (JStr i)" and "i \<noteq> []"
  shows "requested (snd (api_servers env req s)) =
     requested s @ [API_BASE_URL @ js ''/api/v1/servers?id='' @ i]"
  using assms
  by (simp add: api_servers_def api_servers_try_def Let_def js_try_run js_bind_apiCall
      js_bind_lift res_json_run req_query_def ebind_def)

lemma api_stream_requested:
  assumes "query req (js ''id'') = Some (JStr i)" and "i \<noteq> []"
    and "query req (js ''server'') = Some (JStr sv)" and "sv \<noteq> []"
    and "query req (js ''type'') = Some (JStr ty)" and "ty \<noteq> []"
  shows "requested (snd (api_stream env req s)) =
     requested s @ [API_BASE_URL @ js ''/api/v1/stream?server='' @ sv @ js ''&type='' @ ty @
                      js ''&id='' @ i]"
  using assms
  by (simp add: api_stream_def api_stream_try_def Let_def js_try_run js_bind_apiCall
      js_bind_lift res_json_run req_query_def ebind_def)

section \<open>What a handler answers\<close>

lemma js_try_answers:
  assumes "\<And>e s'. \<exists>r. h e s' = (Inr r, s') \<and> P r"
    and "\<And>r s'. m s = (Inr r, s') \<Longrightarrow> F \<Longrightarrow> P r"
  shows "\<exists>r s'. js_try m h s = (Inr r, s') \<and> (F \<longrightarrow> P r)"
proof (cases "m s")
  case (Pair x s')
  show ?thesis
  proof (cases x)
    case (Inl e)
    with Pair assms(1) [of e s'] show ?thesis
      by (auto simp: js_try_run)
  next
    case (Inr r)
    with Pair assms(2) [of r s'] show ?thesis
      by (auto simp: js_try_run)
  qed
qed

lemma render_error_answers:
  "\<exists>r. render_error m s = (Inr r, s) \<and> error_page r \<and> res_status r = 200"
  by (simp add: render_error_run error_page_def)

lemma json_caught_answers:
  "\<exists>r. json_caught env e s = (Inr r, s) \<and> json_failure r \<and> res_status r = 200"
  by (simp add: json_caught_def res_json_run json_failure_def get_prop_def)

lemma failing_upstream_facts:
  assumes "\<forall>endpoint s1. \<exists>v. fst (apiCall env endpoint s1) = Inr v \<and>
             get_prop v (js ''success'') = Inr (JBool False)"
  shows "get_prop (upstream env endpoint) (js ''success'') = Inr (JBool False)"
    and "\<not> succeeded (upstream env endpoint)"
    and "upstream env endpoint \<noteq> JNull" and "upstream env endpoint \<noteq> JUndefined"
proof -
  from assms obtain v where "fst (apiCall env endpoint s) = Inr v"
    and "get_prop v (js ''success'') = Inr (JBool False)"
    by blast
  then show f: "get_prop (upstream env endpoint) (js ''success'') = Inr (JBool False)"
    by (simp add: apiCall_run)
  then show "\<not> succeeded (upstream env endpoint)"
    by (simp add: succeeded_def)
  from f show "upstream env endpoint \<noteq> JNull" and "upstream env endpoint \<noteq> JUndefined"
    by (auto simp: get_prop_def)
qed

lemma home_answers:
  "\<exists>r s'. home env req s = (Inr r, s') \<and>
     ((\<forall>endpoint s1. \<exists>v. fst (apiCall env endpoint s1) = Inr v \<and>
         get_prop v (js ''success'') = Inr (JBool False)) \<longrightarrow> error_page r)"
  unfolding home_def
proof (rule js_try_answers)
  show "\<exists>r. render_error ''Server error occurred'' s' = (Inr r, s') \<and> error_page r"
    for e :: js_error and s'
    using render_error_answers by blast
next
  fix r s'
  assume "home_try env req s = (Inr r, s')"
    and "\<forall>endpoint s1. \<exists>v. fst (apiCall env endpoint s1) = Inr v \<and>
           get_prop v (js ''success'') = Inr (JBool False)"
  then show "error_page r"
    using failing_upstream_facts(1) [of env]
    by (auto simp: home_try_def js_bind_apiCall js_bind_lift render_error_run error_page_def)
qed

lemma anime_details_answers:
  "\<exists>r s'. anime_details env req s = (Inr r, s') \<and>
     ((\<forall>endpoint s1. \<exists>v. fst (apiCall env endpoint s1) = Inr v \<and>
         get_prop v (js ''success'') = Inr (JBool False)) \<longrightarrow> error_page r)"
  unfolding anime_details_def
proof (rule js_try_answers)
  show "\<exists>r. render_error ''Failed to load anime details'' s' = (Inr r, s') \<and> error_page r"
    for e :: js_error and s'
    using render_error_answers by blast
next
  fix r s'
  assume "anime_details_try env req s = (Inr r, s')"
    and "\<forall>endpoint s1. \<exists>v. fst (apiCall env endpoint s1) = Inr v \<and>
           get_prop v (js ''success'') = Inr (JBool False)"
  then show "error_page r"
    using failing_upstream_facts(1) [of env]
    by (auto simp: anime_details_try_def Let_def js_bind_apiCall js_bind_lift render_error_run
        error_page_def simp del: template.simps split: sum.splits)
qed

lemma episodes_answers:
  "\<exists>r s'. episodes env req s = (Inr r, s') \<and>
     ((\<forall>endpoint s1. \<exists>v. fst (apiCall env endpoint s1) = Inr v \<and>
         get_prop v (js ''success'') = Inr (JBool False)) \<longrightarrow> error_page r)"
  unfolding episodes_def
proof (rule js_try_answers)
  show "\<exists>r. render_error ''Failed to load episodes'' s' = (Inr r, s') \<and> error_page r"
    for e :: js_error and s'
    using render_error_answers by blast
next
  fix r s'
  assume "episodes_try env req s = (Inr r, s')"
    and "\<forall>endpoint s1. \<exists>v. fst (apiCall env endpoint s1) = Inr v \<and>
           get_prop v (js ''success'') = Inr (JBool False)"
  then show "error_page r"
    using failing_upstream_facts(1) [of env]
    by (auto simp: episodes_try_def Let_def js_bind_start js_bind_all2 js_bind_lift render_error_run
        error_page_def and_also_def ebind_def simp del: template.simps split: sum.splits)
qed

lemma watch_answers:
  "\<exists>r s'. watch env req s = (Inr r, s') \<and>
     ((\<forall>endpoint s1. \<exists>v. fst (apiCall env endpoint s1) = Inr v \<and>
         get_prop v (js ''success'') = Inr (JBool False)) \<longrightarrow> error_page r)"
  unfolding watch_def
proof (rule js_try_answers)
  show "\<exists>r. render_error ''Failed to load watch page'' s' = (Inr r, s') \<and> error_page r"
    for e :: js_error and s'
    using render_error_answers by blast
next
  fix r s'
  assume "watch_try env req s = (Inr r, s')"
    and "\<forall>endpoint s1. \<exists>v. fst (apiCall env endpoint s1) = Inr v \<and>
           get_prop v (js ''success'') = Inr (JBool False)"
  then show "error_page r"
    using failing_upstream_facts(1) [of env]
    by (auto simp: watch_try_def Let_def js_bind_start js_bind_all3 js_bind_lift render_error_run
        error_page_def simp del: template.simps split: sum.splits)
qed

lemma browse_answers:
  "\<exists>r s'. browse env req s = (Inr r, s') \<and>
     ((\<forall>endpoint s1. \<exists>v. fst (apiCall env endpoint s1) = Inr v \<and>
         get_prop v (js ''success'') = Inr (JBool False)) \<longrightarrow> error_page r)"
  unfolding browse_def
proof (rule js_try_answers)
  show "\<exists>r. render_error ''Failed to load browse data'' s' = (Inr r, s') \<and> error_page r"
    for e :: js_error and s'
    using render_error_answers by blast
next
  fix r s'
  assume "browse_try env req s = (Inr r, s')"
    and "\<forall>endpoint s1. \<exists>v. fst (apiCall env endpoint s1) = Inr v \<and>
           get_prop v (js ''success'') = Inr (JBool False)"
  then show "error_page r"
    using failing_upstream_facts(1) [of env]
    by (auto simp: browse_try_def Let_def js_bind_apiCall js_bind_lift render_error_run
        error_page_def simp del: template.simps split: sum.splits if_splits)
qed

lemma search_answers:
  "\<exists>r s'. search env req s = (Inr r, s') \<and>
     ((\<forall>endpoint s1. \<exists>v. fst (apiCall env endpoint s1) = Inr v \<and>
         get_prop v (js ''success'') = Inr (JBool False)) \<longrightarrow> search_without_results r)"
  unfolding search_def
proof (rule js_try_answers)
  show "\<exists>r. res_render 200 ''search''
              [(''results'', JNull),
               (''keyword'', js_or (req_query req (js ''keyword'')) (JStr [])),
               (''title'', JStr (js ''Search - AnimeKai''))] s' = (Inr r, s') \<and>
            search_without_results r"
    for e :: js_error and s'
    by (simp add: res_render_run search_without_results_def)
next
  fix r s'
  assume "search_try env req s = (Inr r, s')"
    and "\<forall>endpoint s1. \<exists>v. fst (apiCall env endpoint s1) = Inr v \<and>
           get_prop v (js ''success'') = Inr (JBool False)"
  then show "search_without_results r"
    using failing_upstream_facts(1) [of env]
    by (auto simp: search_try_def Let_def js_bind_apiCall js_bind_lift res_render_run
        search_without_results_def cond_def ebind_def
        simp del: template.simps split: sum.splits if_splits)
qed

lemma api_suggestions_answers:
  "\<exists>r s'. api_suggestions env req s = (Inr r, s') \<and>
     ((\<forall>endpoint s1. \<exists>v. fst (apiCall env endpoint s1) = Inr v \<and>
         get_prop v (js ''success'') = Inr (JBool False)) \<longrightarrow> json_failure r)"
  unfolding api_suggestions_def
proof (rule js_try_answers)
  show "\<exists>r. json_caught env e s' = (Inr r, s') \<and> json_failure r" for e s'
    using json_caught_answers by blast
next
  fix r s'
  assume "api_suggestions_try env req s = (Inr r, s')"
    and "\<forall>endpoint s1. \<exists>v. fst (apiCall env endpoint s1) = Inr v \<and>
           get_prop v (js ''success'') = Inr (JBool False)"
  then show "json_failure r"
    using failing_upstream_facts(1) [of env]
    by (auto simp: api_suggestions_try_def Let_def js_bind_apiCall js_bind_lift res_json_run
        json_required_def json_failure_def get_prop_def
        simp del: template.simps split: sum.splits if_splits)
qed

lemma api_servers_answers:
  "\<exists>r s'. api_servers env req s = (Inr r, s') \<and>
     ((\<forall>endpoint s1. \<exists>v. fst (apiCall env endpoint s1) = Inr v \<and>
         get_prop v (js ''success'') = Inr (JBool False)) \<longrightarrow> json_failure r)"
  unfolding api_servers_def
proof (rule js_try_answers)
  show "\<exists>r. json_caught env e s' = (Inr r, s') \<and> json_failure r" for e s'
    using json_caught_answers by blast
next
  fix r s'
  assume "api_servers_try env req s = (Inr r, s')"
    and "\<forall>endpoint s1. \<exists>v. fst (apiCall env endpoint s1) = Inr v \<and>
           get_prop v (js ''success'') = Inr (JBool False)"
  then show "json_failure r"
    using failing_upstream_facts(1) [of env]
    by (auto simp: api_servers_try_def Let_def js_bind_apiCall js_bind_lift res_json_run
        json_required_def json_failure_def get_prop_def
        simp del: template.simps split: sum.splits if_splits)
qed

lemma api_stream_answers:
  "\<exists>r s'. api_stream env req s = (Inr r, s') \<and>
     ((\<forall>endpoint s1. \<exists>v. fst (apiCall env endpoint s1) = Inr v \<and>
         get_prop v (js ''success'') = Inr (JBool False)) \<longrightarrow> json_failure r)"
  unfolding api_stream_def
proof (rule js_try_answers)
  show "\<exists>r. json_caught env e s' = (Inr r, s') \<and> json_failure r" for e s'
    using json_caught_answers by blast
next
  fix r s'
  assume "api_stream_try env req s = (Inr r, s')"
    and "\<forall>endpoint s1. \<exists>v. fst (apiCall env endpoint s1) = Inr v \<and>
           get_prop v (js ''success'') = Inr (JBool False)"
  then show "json_failure r"
    using failing_upstream_facts(1) [of env]
    by (auto simp: api_stream_try_def Let_def js_bind_apiCall js_bind_lift res_json_run
        json_required_def json_failure_def get_prop_def
        simp del: template.simps split: sum.splits if_splits)
qed

lemma handler_answers:
  "\<exists>r s'. handler route env req s = (Inr r, s') \<and>
     ((\<forall>endpoint s1. \<exists>v. fst (apiCall env endpoint s1) = Inr v \<and>
         get_prop v (js ''success'') = Inr (JBool False)) \<longrightarrow> degraded route r)"
proof (cases route)
  case Home
  then show ?thesis using home_answers [of env req s] by simp
next
  case AnimeDetails
  then show ?thesis using anime_details_answers [of env req s] by simp
next
  case Episodes
  then show ?thesis using episodes_answers [of env req s] by simp
next
  case Watch
  then show ?thesis using watch_answers [of env req s] by simp
next
  case Search
  then show ?thesis using search_answers [of env req s] by simp
next
  case Browse
  then show ?thesis using browse_answers [of env req s] by simp
next
  case ApiSuggestions
  then show ?thesis using api_suggestions_answers [of env req s] by simp
next
  case ApiServers
  then show ?thesis using api_servers_answers [of env req s] by simp
next
  case ApiStream
  then show ?thesis using api_stream_answers [of env req s] by simp
qed

lemma handler_try_status: "handler_try route env req s = (Inr r, s') \<Longrightarrow> res_status r = 200"
  by (cases route)
    (auto simp: home_try_def anime_details_try_def episodes_try_def watch_try_def search_try_def
      browse_try_def api_suggestions_try_def api_servers_try_def api_stream_try_def Let_def
      js_bind_apiCall js_bind_start js_bind_all2 js_bind_all3 js_bind_lift render_error_run
      res_render_run res_json_run json_required_def
      simp del: template.simps split: sum.splits if_splits)

lemma js_try_status:
  assumes "\<And>e s'. \<exists>r. h e s' = (Inr r, s') \<and> res_status r = 200"
    and "\<And>r s'. m s = (Inr r, s') \<Longrightarrow> res_status r = 200"
  shows "\<exists>r s'. js_try m h s = (Inr r, s') \<and> res_status r = 200"
  using js_try_answers [of h "\<lambda>r. res_status r = 200" m s True] assms by simp

lemma handler_status: "\<exists>r s'. handler route env req s = (Inr r, s') \<and> res_status r = 200"
proof -
  have caught: "\<exists>r. render_error m t = (Inr r, t) \<and> res_status r = 200" for m t
    using render_error_answers by blast
  have json: "\<exists>r. json_caught env e t = (Inr r, t) \<and> res_status r = 200" for e t
    using json_caught_answers by blast
  have search: "\<exists>r. res_render 200 ''search''
              [(''results'', JNull),
               (''keyword'', js_or (req_query req (js ''keyword'')) (JStr [])),
               (''title'', JStr (js ''Search - AnimeKai''))] t = (Inr r, t) \<and>
            res_status r = 200" for t
    by (simp add: res_render_run)
  note body = handler_try_status [of _ env req s]
  show ?thesis
  proof (cases route)
    case Home
    show ?thesis
      unfolding Home handler.simps home_def
      using body [of Home] by (intro js_try_status caught) simp
  next
    case AnimeDetails
    show ?thesis
      unfolding AnimeDetails handler.simps anime_details_def
      using body [of AnimeDetails] by (intro js_try_status caught) simp
  next
    case Episodes
    show ?thesis
      unfolding Episodes handler.simps episodes_def
      using body [of Episodes] by (intro js_try_status caught) simp
  next
    case Watch
    show ?thesis
      unfolding Watch handler.simps watch_def
      using body [of Watch] by (intro js_try_status caught) simp
  next
    case Search
    show ?thesis
      unfolding Search handler.simps search_def
      using body [of Search] by (intro js_try_status search) simp
  next
    case Browse
    show ?thesis
      unfolding Browse handler.simps browse_def
      using body [of Browse] by (intro js_try_status caught) simp
  next
    case ApiSuggestions
    show ?thesis
      unfolding ApiSuggestions handler.simps api_suggestions_def
      using body [of ApiSuggestions] by (intro js_try_status json) simp
  next
    case ApiServers
    show ?thesis
      unfolding ApiServers handler.simps api_servers_def
      using body [of ApiServers] by (intro js_try_status json) simp
  next
    case ApiStream
    show ?thesis
      unfolding ApiStream handler.simps api_stream_def
      using body [of ApiStream] by (intro js_try_status json) simp
  qed
qed

lemma handler_caught:
  "handler route env req s =
     (case handler_try route env req s of
        (Inl error, s') \<Rightarrow> (Inr (caught route env req error), s')
      | (Inr r, s') \<Rightarrow> (Inr r, s'))"
  by (cases route)
    (simp_all add: home_def anime_details_def episodes_def watch_def search_def browse_def
      api_suggestions_def api_servers_def api_stream_def js_try_run render_error_run
      res_render_run json_caught_def res_json_run error_view_def
      split: prod.splits sum.splits)

section \<open>The upstream client never throws\<close>

text \<open>
  C1. \<^verbatim>\<open>apiCall\<close> returns for every endpoint and never throws: when \<^verbatim>\<open>axios.get\<close>
  resolves it returns the \<^verbatim>\<open>data\<close> of the response as it is, and when \<^verbatim>\<open>axios.get\<close>
  rejects (a transport failure, a status outside 2xx) it logs the failure and returns
  \<^verbatim>\<open>{ success: false, error: error.message }\<close>. Either way one request was issued and
  has settled.
\<close>

theorem apiCall_never_throws:
  "apiCall env endpoint s =
     (case axios_get env (API_BASE_URL @ endpoint) of
        Inr response \<Rightarrow>
          (Inr (data response),
           s\<lparr>requested := requested s @ [API_BASE_URL @ endpoint],
             timeline := timeline s @
               [Issued (API_BASE_URL @ endpoint), Settled (API_BASE_URL @ endpoint)]\<rparr>)
      | Inl error \<Rightarrow>
          (Inr (JObj [(js ''success'', JBool False), (js ''error'', message env error)]),
           s\<lparr>requested := requested s @ [API_BASE_URL @ endpoint],
             console := console s @
               [[JStr (js ''API Error for '' @ endpoint @ js '':''), message env error]],
             timeline := timeline s @
               [Issued (API_BASE_URL @ endpoint), Settled (API_BASE_URL @ endpoint)]\<rparr>))"
  by (simp add: apiCall_def await_def apiCall_start_def js_try_def js_bind_def js_return_def
      http_get_def await_response_def console_error_def split: sum.splits)

theorem apiCall_never_throws_witness:
  "apiCall (example_env [(js ''https://animekai-6wq1.onrender.com/api/v1/home'', JStr (js ''ok''))])
     (js ''/api/v1/home'') io0 =
     (Inr (JStr (js ''ok'')),
      \<lparr>requested = [js ''https://animekai-6wq1.onrender.com/api/v1/home''], console = [],
       timeline = [Issued (js ''https://animekai-6wq1.onrender.com/api/v1/home''),
                   Settled (js ''https://animekai-6wq1.onrender.com/api/v1/home'')]\<rparr>) \<and>
   apiCall (example_env []) (js ''/api/v1/home'') io0 =
     (Inr (JObj [(js ''success'', JBool False),
                 (js ''error'', JStr (js ''Request failed with status code 404''))]),
      \<lparr>requested = [js ''https://animekai-6wq1.onrender.com/api/v1/home''],
       console = [[JStr (js ''API Error for /api/v1/home:''),
                   JStr (js ''Request failed with status code 404'')]],
       timeline = [Issued (js ''https://animekai-6wq1.onrender.com/api/v1/home''),
                   Settled (js ''https://animekai-6wq1.onrender.com/api/v1/home'')]\<rparr>)"
  by (simp add: apiCall_never_throws example_env_def example_upstream_def io0_def
      API_BASE_URL_def message_def)

section \<open>The episodes page\<close>

lemma episodes_fst:
  assumes "params req (js ''id'') = Some i"
  shows "fst (episodes env req s) =
     Inr (case title_text (upstream env (js ''/api/v1/anime/'' @ i)) of
            Inr t \<Rightarrow>
              if succeeded (upstream env (js ''/api/v1/anime/'' @ i)) \<and>
                 succeeded (upstream env (js ''/api/v1/episodes/'' @ i))
              then Render 200 (js ''episodes'')
                     [(js ''anime'', payload (upstream env (js ''/api/v1/anime/'' @ i))),
                      (js ''episodes'', payload (upstream env (js ''/api/v1/episodes/'' @ i))),
                      (js ''title'', JStr (t @ js '' Episodes - AnimeKai''))]
              else Render 200 (js ''error'')
                     [(js ''message'', JStr (js ''Failed to load episodes'')),
                      (js ''title'', JStr (js ''Error''))]
          | Inl e \<Rightarrow>
              Render 200 (js ''error'')
                [(js ''message'', JStr (js ''Failed to load episodes'')),
                 (js ''title'', JStr (js ''Error''))])"
  using assms
  apply (simp add: episodes_def episodes_try_def js_try_run js_bind_start js_bind_all2 js_bind_lift
      res_render_run render_error_run req_params_def ebind_def and_also_def succeeded_def
      payload_def title_text_def Let_def split: sum.splits)
  apply (auto simp: get_prop_def data_title_def ebind_def
      split: jsval.splits sum.splits option.splits if_splits)
  done

text \<open>
  C2, as the code has it. A request to \<^verbatim>\<open>/anime/:id/episodes\<close> renders the episodes view
  if and only if the \<^verbatim>\<open>success\<close> of both results is truthy and evaluating the
  substitution \<^verbatim>\<open>${animeData.data.title}\<close> of the title does not throw, neither in
  reading \<^verbatim>\<open>animeData.data.title\<close> nor in converting it to a string (it throws when
  \<^verbatim>\<open>animeData.data\<close> is \<^verbatim>\<open>null\<close> or \<^verbatim>\<open>undefined\<close>, and when the title is an object with
  an own property \<^verbatim>\<open>toString\<close>). In every other case, so whenever one of the two results
  has \<^verbatim>\<open>success: false\<close>, it renders the error view with the message
  \<^verbatim>\<open>Failed to load episodes\<close>.
\<close>

theorem episodes_rendered_iff:
  assumes "params req (js ''id'') = Some i"
    and "fst (apiCall env (js ''/api/v1/anime/'' @ i) s1) = Inr animeData"
    and "fst (apiCall env (js ''/api/v1/episodes/'' @ i) s2) = Inr episodesData"
  shows "fst (episodes env req s) =
     Inr (case title_text animeData of
            Inr t \<Rightarrow>
              if succeeded animeData \<and> succeeded episodesData
              then Render 200 (js ''episodes'')
                     [(js ''anime'', payload animeData), (js ''episodes'', payload episodesData),
                      (js ''title'', JStr (t @ js '' Episodes - AnimeKai''))]
              else Render 200 (js ''error'')
                     [(js ''message'', JStr (js ''Failed to load episodes'')),
                      (js ''title'', JStr (js ''Error''))]
          | Inl e \<Rightarrow>
              Render 200 (js ''error'')
                [(js ''message'', JStr (js ''Failed to load episodes'')),
                 (js ''title'', JStr (js ''Error''))]) \<and>
     ((\<exists>locals. fst (episodes env req s) = Inr (Render 200 (js ''episodes'') locals)) \<longleftrightarrow>
      succeeded animeData \<and> succeeded episodesData \<and> (\<exists>t. title_text animeData = Inr t))"
proof -
  have a: "upstream env (js ''/api/v1/anime/'' @ i) = animeData"
    using assms(2) by (rule upstream_eq)
  have b: "upstream env (js ''/api/v1/episodes/'' @ i) = episodesData"
    using assms(3) by (rule upstream_eq)
  show ?thesis
    unfolding episodes_fst [OF assms(1)] a b
    by (cases "title_text animeData") simp_all
qed

theorem episodes_rendered_iff_witness:
  "params episodes_of_7 (js ''id'') = Some (js ''7'') \<and>
   fst (apiCall env_up (js ''/api/v1/anime/'' @ js ''7'') io0) = Inr (ok frieren) \<and>
   fst (apiCall env_up (js ''/api/v1/episodes/'' @ js ''7'') io0) = Inr (ok (JArr [])) \<and>
   fst (episodes env_up episodes_of_7 io0) =
     Inr (Render 200 (js ''episodes'')
            [(js ''anime'', frieren), (js ''episodes'', JArr []),
             (js ''title'', JStr (js ''Frieren Episodes - AnimeKai''))])"
proof -
  have p: "params episodes_of_7 (js ''id'') = Some (js ''7'')"
    by (simp add: episodes_of_7_def)
  have a: "fst (apiCall env_up (js ''/api/v1/anime/'' @ js ''7'') io0) = Inr (ok frieren)"
    by (simp add: apiCall_run example_upstream_run env_up_def API_BASE_URL_def)
  have b: "fst (apiCall env_up (js ''/api/v1/episodes/'' @ js ''7'') io0) = Inr (ok (JArr []))"
    by (simp add: apiCall_run example_upstream_run env_up_def API_BASE_URL_def)
  have "fst (episodes env_up episodes_of_7 io0) =
      Inr (Render 200 (js ''episodes'')
            [(js ''anime'', frieren), (js ''episodes'', JArr []),
             (js ''title'', JStr (js ''Frieren Episodes - AnimeKai''))])"
    using episodes_rendered_iff [OF p a b, of io0]
    by (simp add: title_text_def data_title_def get_prop_def ebind_def succeeded_def payload_def
        ok_def frieren_def)
  with p a b show ?thesis
    by blast
qed

text \<open>
  C2 as it is stated fails: with \<^verbatim>\<open>success: true\<close> in both results and
  \<^verbatim>\<open>data: null\<close> in the anime result, reading \<^verbatim>\<open>animeData.data.title\<close> throws, the
  \<^verbatim>\<open>catch\<close> block runs, and the error view is rendered.
\<close>

theorem episodes_success_without_data:
  "fst (apiCall env_null_data (js ''/api/v1/anime/7'') io0) =
     Inr (JObj [(js ''success'', JBool True), (js ''data'', JNull)]) \<and>
   fst (apiCall env_null_data (js ''/api/v1/episodes/7'') io0) =
     Inr (JObj [(js ''success'', JBool True), (js ''data'', JArr [])]) \<and>
   fst (episodes env_null_data episodes_of_7 io0) =
     Inr (Render 200 (js ''error'')
            [(js ''message'', JStr (js ''Failed to load episodes'')),
             (js ''title'', JStr (js ''Error''))])"
  by (simp add: apiCall_run example_upstream_run API_BASE_URL_def episodes_def episodes_try_def
      js_try_run js_bind_start js_bind_all2 js_bind_lift res_render_run render_error_run req_params_def
      ebind_def and_also_def data_title_def get_prop_def Let_def env_null_data_def ok_def
      episodes_of_7_def)

section \<open>The watch page\<close>

text \<open>
  C3, as the code has it. For a request to \<^verbatim>\<open>/watch/:animeId\<close> with string or absent
  \<^verbatim>\<open>ep\<close>, \<^verbatim>\<open>server\<close> and \<^verbatim>\<open>type\<close>: when the \<^verbatim>\<open>success\<close> of the anime result is truthy
  and evaluating the substitution \<^verbatim>\<open>${animeData.data.title}\<close> of the title does not
  throw, neither in reading \<^verbatim>\<open>animeData.data.title\<close> nor in converting it to a string
  (it throws when \<^verbatim>\<open>animeData.data\<close> is \<^verbatim>\<open>null\<close> or \<^verbatim>\<open>undefined\<close>, and when the title is
  an object with an own property \<^verbatim>\<open>toString\<close>), the watch view is rendered whatever the
  server and stream results say, provided they are values whose \<^verbatim>\<open>success\<close> can be read
  (anything but \<^verbatim>\<open>null\<close> and \<^verbatim>\<open>undefined\<close>). In its context
  \<^verbatim>\<open>servers\<close> is \<^verbatim>\<open>null\<close> when the server-list call failed and is the \<^verbatim>\<open>data\<close> of its
  result otherwise, and likewise \<^verbatim>\<open>streamData\<close> for the stream call.
\<close>

theorem watch_rendered:
  assumes "params req (js ''animeId'') = Some i"
    and "text_or (query req (js ''ep'')) (js ''1'') = Some e"
    and "text_or (query req (js ''server'')) (js ''HD-1'') = Some sv"
    and "text_or (query req (js ''type'')) (js ''sub'') = Some ty"
    and "fst (apiCall env (js ''/api/v1/anime/'' @ takeWhile (\<lambda>c. c \<noteq> of_char CHR ''?'') i) s1) =
           Inr animeData"
    and "fst (apiCall env (js ''/api/v1/servers?id='' @ i @ js ''::ep='' @ e) s2) = Inr serversData"
    and "fst (apiCall env (js ''/api/v1/stream?server='' @ sv @ js ''&type='' @ ty @
                            js ''&id='' @ i @ js ''::ep='' @ e) s3) = Inr streamData"
    and "succeeded animeData" and "title_text animeData = Inr t"
    and "serversData \<noteq> JNull" and "serversData \<noteq> JUndefined"
    and "streamData \<noteq> JNull" and "streamData \<noteq> JUndefined"
  shows "fst (watch env req s) =
     Inr (Render 200 (js ''watch'')
            [(js ''anime'', payload animeData),
             (js ''servers'', if succeeded serversData then payload serversData else JNull),
             (js ''streamData'', if succeeded streamData then payload streamData else JNull),
             (js ''currentEpisode'', JStr e), (js ''currentServer'', JStr sv),
             (js ''currentType'', JStr ty),
             (js ''title'', JStr (js ''Watch '' @ t @ js '' Episode '' @ e @ js '' - AnimeKai''))])"
proof -
  have a: "animeData = upstream env (js ''/api/v1/anime/'' @ takeWhile (\<lambda>c. c \<noteq> of_char CHR ''?'') i)"
    using assms(5) by (simp only: upstream_eq)
  have sd: "serversData = upstream env (js ''/api/v1/servers?id='' @ i @ js ''::ep='' @ e)"
    using assms(6) by (simp only: upstream_eq)
  have st: "streamData = upstream env (js ''/api/v1/stream?server='' @ sv @ js ''&type='' @ ty @
                                        js ''&id='' @ i @ js ''::ep='' @ e)"
    using assms(7) by (simp only: upstream_eq)
  show ?thesis
    unfolding watch_run [OF assms(1-4) a sd st]
    using assms(8-13) by simp
qed

theorem watch_rendered_witness:
  "params watch_7 (js ''animeId'') = Some (js ''7'') \<and>
   text_or (query watch_7 (js ''ep'')) (js ''1'') = Some (js ''1'') \<and>
   text_or (query watch_7 (js ''server'')) (js ''HD-1'') = Some (js ''HD-1'') \<and>
   text_or (query watch_7 (js ''type'')) (js ''sub'') = Some (js ''sub'') \<and>
   fst (apiCall env_up (js ''/api/v1/anime/7'') io0) = Inr (ok frieren) \<and>
   fst (apiCall env_up (js ''/api/v1/servers?id=7::ep=1'') io0) =
     Inr (ok (JArr [JStr (js ''HD-1'')])) \<and>
   fst (apiCall env_up (js ''/api/v1/stream?server=HD-1&type=sub&id=7::ep=1'') io0) =
     Inr (JObj [(js ''success'', JBool False),
                (js ''error'', JStr (js ''Request failed with status code 404''))]) \<and>
   succeeded (ok frieren) \<and> title_text (ok frieren) = Inr (js ''Frieren'') \<and>
   fst (watch env_up watch_7 io0) =
     Inr (Render 200 (js ''watch'')
            [(js ''anime'', frieren),
             (js ''servers'', JArr [JStr (js ''HD-1'')]),
             (js ''streamData'', JNull),
             (js ''currentEpisode'', JStr (js ''1'')), (js ''currentServer'', JStr (js ''HD-1'')),
             (js ''currentType'', JStr (js ''sub'')),
             (js ''title'', JStr (js ''Watch Frieren Episode 1 - AnimeKai''))])"
proof -
  let ?down = "JObj [(js ''success'', JBool False),
                     (js ''error'', JStr (js ''Request failed with status code 404''))]"
  have i: "params watch_7 (js ''animeId'') = Some (js ''7'')"
    by (simp add: watch_7_def)
  have e: "text_or (query watch_7 (js ''ep'')) (js ''1'') = Some (js ''1'')"
    by (simp add: watch_7_def text_or_def)
  have sv: "text_or (query watch_7 (js ''server'')) (js ''HD-1'') = Some (js ''HD-1'')"
    by (simp add: watch_7_def text_or_def)
  have ty: "text_or (query watch_7 (js ''type'')) (js ''sub'') = Some (js ''sub'')"
    by (simp add: watch_7_def text_or_def)
  have cut: "takeWhile (\<lambda>c. c \<noteq> of_char CHR ''?'') (js ''7'') = js ''7''"
    by (simp add: js_def)
  have a: "fst (apiCall env_up (js ''/api/v1/anime/'' @ takeWhile (\<lambda>c. c \<noteq> of_char CHR ''?'') (js ''7'')) io0) =
      Inr (ok frieren)"
    unfolding cut by (simp add: apiCall_run example_upstream_run env_up_def API_BASE_URL_def)
  have sd: "fst (apiCall env_up (js ''/api/v1/servers?id='' @ js ''7'' @ js ''::ep='' @ js ''1'') io0) =
      Inr (ok (JArr [JStr (js ''HD-1'')]))"
    by (simp add: apiCall_run example_upstream_run env_up_def API_BASE_URL_def)
  have st: "fst (apiCall env_up (js ''/api/v1/stream?server='' @ js ''HD-1'' @ js ''&type='' @ js ''sub'' @
                                 js ''&id='' @ js ''7'' @ js ''::ep='' @ js ''1'') io0) = Inr ?down"
    by (simp add: apiCall_run example_upstream_run env_up_def API_BASE_URL_def)
  have ok: "succeeded (ok frieren)"
    by (simp add: succeeded_def ok_def get_prop_def)
  have t: "title_text (ok frieren) = Inr (js ''Frieren'')"
    by (simp add: title_text_def data_title_def ok_def frieren_def get_prop_def ebind_def)
  have "fst (watch env_up watch_7 io0) =
     Inr (Render 200 (js ''watch'')
            [(js ''anime'', frieren),
             (js ''servers'', JArr [JStr (js ''HD-1'')]),
             (js ''streamData'', JNull),
             (js ''currentEpisode'', JStr (js ''1'')), (js ''currentServer'', JStr (js ''HD-1'')),
             (js ''currentType'', JStr (js ''sub'')),
             (js ''title'', JStr (js ''Watch Frieren Episode 1 - AnimeKai''))])"
    using watch_rendered [OF i e sv ty a sd st ok t, of io0]
    by (simp add: ok_def succeeded_def payload_def get_prop_def)
  moreover have "fst (apiCall env_up (js ''/api/v1/anime/7'') io0) = Inr (ok frieren)"
    using a unfolding cut by simp
  moreover have "fst (apiCall env_up (js ''/api/v1/servers?id=7::ep=1'') io0) =
      Inr (ok (JArr [JStr (js ''HD-1'')]))"
    using sd by simp
  moreover have "fst (apiCall env_up (js ''/api/v1/stream?server=HD-1&type=sub&id=7::ep=1'') io0) =
      Inr ?down"
    using st by simp
  ultimately show ?thesis
    using i e sv ty ok t by blast
qed

text \<open>
  C3 as it is stated fails twice. With \<^verbatim>\<open>{ success: true, data: null }\<close> as the anime
  result the anime-detail call has succeeded, the title cannot be read, and the error
  view is rendered. With \<^verbatim>\<open>{ success: true, data: null }\<close> as the server list the
  server-list call has succeeded and \<^verbatim>\<open>servers\<close> is \<^verbatim>\<open>null\<close> all the same.
\<close>

theorem watch_success_is_not_enough:
  "fst (apiCall env_null_data (js ''/api/v1/anime/7'') io0) =
     Inr (JObj [(js ''success'', JBool True), (js ''data'', JNull)]) \<and>
   fst (watch env_null_data watch_7 io0) =
     Inr (Render 200 (js ''error'')
            [(js ''message'', JStr (js ''Failed to load watch page'')),
             (js ''title'', JStr (js ''Error''))]) \<and>
   fst (apiCall env_null_servers (js ''/api/v1/servers?id=7::ep=1'') io0) =
     Inr (JObj [(js ''success'', JBool True), (js ''data'', JNull)]) \<and>
   fst (watch env_null_servers watch_7 io0) =
     Inr (Render 200 (js ''watch'')
            [(js ''anime'', JObj [(js ''title'', JStr (js ''Frieren''))]),
             (js ''servers'', JNull),
             (js ''streamData'', JNull),
             (js ''currentEpisode'', JStr (js ''1'')), (js ''currentServer'', JStr (js ''HD-1'')),
             (js ''currentType'', JStr (js ''sub'')),
             (js ''title'', JStr (js ''Watch Frieren Episode 1 - AnimeKai''))])"
proof -
  have i: "params watch_7 (js ''animeId'') = Some (js ''7'')"
    by (simp add: watch_7_def)
  have e: "text_or (query watch_7 (js ''ep'')) (js ''1'') = Some (js ''1'')"
    by (simp add: watch_7_def text_or_def)
  have sv: "text_or (query watch_7 (js ''server'')) (js ''HD-1'') = Some (js ''HD-1'')"
    by (simp add: watch_7_def text_or_def)
  have ty: "text_or (query watch_7 (js ''type'')) (js ''sub'') = Some (js ''sub'')"
    by (simp add: watch_7_def text_or_def)
  have cut: "takeWhile (\<lambda>c. c \<noteq> of_char CHR ''?'') (js ''7'') = js ''7''"
    by (simp add: js_def)
  have cut': "takeWhile (\<lambda>c. c \<noteq> (63 :: 16 word)) (js ''7'') = js ''7''"
    by (simp add: js_def)
  note eval = apiCall_run example_upstream_run API_BASE_URL_def ok_def frieren_def
    title_text_def data_title_def get_prop_def ebind_def succeeded_def payload_def cut'
  have "fst (apiCall env_null_data (js ''/api/v1/anime/7'') io0) =
      Inr (JObj [(js ''success'', JBool True), (js ''data'', JNull)])"
    by (simp add: eval env_null_data_def)
  moreover have "fst (watch env_null_data watch_7 io0) =
      Inr (Render 200 (js ''error'')
            [(js ''message'', JStr (js ''Failed to load watch page'')),
             (js ''title'', JStr (js ''Error''))])"
    unfolding watch_run [OF i e sv ty refl refl refl]
    by (simp add: eval env_null_data_def)
  moreover have "fst (apiCall env_null_servers (js ''/api/v1/servers?id=7::ep=1'') io0) =
      Inr (JObj [(js ''success'', JBool True), (js ''data'', JNull)])"
    by (simp add: eval env_null_servers_def)
  moreover have "fst (watch env_null_servers watch_7 io0) =
     Inr (Render 200 (js ''watch'')
            [(js ''anime'', JObj [(js ''title'', JStr (js ''Frieren''))]),
             (js ''servers'', JNull),
             (js ''streamData'', JNull),
             (js ''currentEpisode'', JStr (js ''1'')), (js ''currentServer'', JStr (js ''HD-1'')),
             (js ''currentType'', JStr (js ''sub'')),
             (js ''title'', JStr (js ''Watch Frieren Episode 1 - AnimeKai''))])"
    unfolding watch_run [OF i e sv ty refl refl refl]
    by (simp add: eval env_null_servers_def)
  ultimately show ?thesis
    by blast
qed

section \<open>Requests answered without an upstream call\<close>

text \<open>
  C4. A request to \<^verbatim>\<open>/search\<close> whose \<^verbatim>\<open>keyword\<close> is absent or the empty string renders
  the search view with \<^verbatim>\<open>results: null\<close> and \<^verbatim>\<open>keyword: ''\<close>; the effects are what they
  were, so no request went to the upstream.
\<close>

theorem search_without_keyword:
  assumes "query req (js ''keyword'') = None \<or> query req (js ''keyword'') = Some (JStr [])"
  shows "search env req s =
     (Inr (Render 200 (js ''search'')
             [(js ''results'', JNull), (js ''keyword'', JStr []),
              (js ''title'', JStr (js ''Search - AnimeKai''))]), s) \<and>
     requested (snd (search env req s)) = requested s"
  using assms
  by (auto simp: search_def search_try_def js_try_run res_render_run req_query_def js_or_def)

theorem search_without_keyword_witness:
  "(query (example_request (Some Search) [] [(''keyword'', JStr [])]) (js ''keyword'') = None \<or>
    query (example_request (Some Search) [] [(''keyword'', JStr [])]) (js ''keyword'') =
      Some (JStr [])) \<and>
   search env_up (example_request (Some Search) [] [(''keyword'', JStr [])]) io0 =
     (Inr (Render 200 (js ''search'')
             [(js ''results'', JNull), (js ''keyword'', JStr []),
              (js ''title'', JStr (js ''Search - AnimeKai''))]), io0) \<and>
   requested (snd (search env_up (example_request (Some Search) [] [(''keyword'', JStr [])]) io0)) = []"
proof -
  have k: "query (example_request (Some Search) [] [(''keyword'', JStr [])]) (js ''keyword'') = None \<or>
      query (example_request (Some Search) [] [(''keyword'', JStr [])]) (js ''keyword'') =
        Some (JStr [])"
    by simp
  show ?thesis
    using k search_without_keyword [OF k, of env_up io0] by (simp add: io0_def)
qed

text \<open>
  C5. When a required query parameter is missing, \<^verbatim>\<open>/api/suggestions\<close>
  (\<^verbatim>\<open>keyword\<close>), \<^verbatim>\<open>/api/servers\<close> (\<^verbatim>\<open>id\<close>) and \<^verbatim>\<open>/api/stream\<close> (\<^verbatim>\<open>id\<close>, \<^verbatim>\<open>server\<close>,
  \<^verbatim>\<open>type\<close>) answer with a body \<^verbatim>\<open>{ success: false, message }\<close> built on the spot; the
  effects are what they were, so no request went to the upstream.
\<close>

theorem json_routes_require_parameters:
  "(query req (js ''keyword'') = None \<longrightarrow>
      api_suggestions env req s =
        (Inr (Json 200 (JObj [(js ''success'', JBool False),
                              (js ''message'', JStr (js ''Keyword required''))])), s)) \<and>
   (query req (js ''id'') = None \<longrightarrow>
      api_servers env req s =
        (Inr (Json 200 (JObj [(js ''success'', JBool False),
                              (js ''message'', JStr (js ''ID required''))])), s)) \<and>
   (query req (js ''id'') = None \<or> query req (js ''server'') = None \<or>
    query req (js ''type'') = None \<longrightarrow>
      api_stream env req s =
        (Inr (Json 200 (JObj [(js ''success'', JBool False),
                              (js ''message'', JStr (js ''Missing required parameters''))])), s))"
  by (auto simp: api_suggestions_def api_suggestions_try_def api_servers_def api_servers_try_def
      api_stream_def api_stream_try_def json_required_def js_try_run res_json_run req_query_def)

theorem json_routes_require_parameters_witness:
  "query (example_request (Some ApiStream) [] [(''server'', JStr (js ''HD-1''))]) (js ''keyword'') = None \<and>
   query (example_request (Some ApiStream) [] [(''server'', JStr (js ''HD-1''))]) (js ''id'') = None \<and>
   api_suggestions env_up (example_request (Some ApiStream) [] [(''server'', JStr (js ''HD-1''))]) io0 =
     (Inr (Json 200 (JObj [(js ''success'', JBool False),
                           (js ''message'', JStr (js ''Keyword required''))])), io0) \<and>
   api_servers env_up (example_request (Some ApiStream) [] [(''server'', JStr (js ''HD-1''))]) io0 =
     (Inr (Json 200 (JObj [(js ''success'', JBool False),
                           (js ''message'', JStr (js ''ID required''))])), io0) \<and>
   api_stream env_up (example_request (Some ApiStream) [] [(''server'', JStr (js ''HD-1''))]) io0 =
     (Inr (Json 200 (JObj [(js ''success'', JBool False),
                           (js ''message'', JStr (js ''Missing required parameters''))])), io0)"
proof -
  let ?req = "example_request (Some ApiStream) [] [(''server'', JStr (js ''HD-1''))]"
  have k: "query ?req (js ''keyword'') = None" and i: "query ?req (js ''id'') = None"
    by simp_all
  show ?thesis
    using k i json_routes_require_parameters [of ?req env_up io0] by simp
qed

section \<open>The upstream paths\<close>

text \<open>
  C8, as the code has it. For a request to \<^verbatim>\<open>/watch/:animeId\<close> with string or absent
  \<^verbatim>\<open>ep\<close>, \<^verbatim>\<open>server\<close> and \<^verbatim>\<open>type\<close>, the handler issues exactly three upstream calls,
  in parallel: all three requests are issued before the handler resumes with the
  result of any of them. They are the anime-detail call, addressed by the anime id cut
  at its first \<^verbatim>\<open>?\<close>, and the servers and stream calls, addressed by the composite key
  \<^verbatim>\<open>animeId::ep=episode\<close> built from the whole anime id. An absent \<^verbatim>\<open>ep\<close> stands for
  \<^verbatim>\<open>1\<close>, an absent \<^verbatim>\<open>server\<close> for \<^verbatim>\<open>HD-1\<close> and an absent \<^verbatim>\<open>type\<close> for \<^verbatim>\<open>sub\<close>.
\<close>

theorem watch_calls:
  assumes "params req (js ''animeId'') = Some i"
    and "text_or (query req (js ''ep'')) (js ''1'') = Some e"
    and "text_or (query req (js ''server'')) (js ''HD-1'') = Some sv"
    and "text_or (query req (js ''type'')) (js ''sub'') = Some ty"
  shows "requested (snd (watch env req s)) =
     requested s @
       [API_BASE_URL @ js ''/api/v1/anime/'' @ takeWhile (\<lambda>c. c \<noteq> of_char CHR ''?'') i,
        API_BASE_URL @ js ''/api/v1/servers?id='' @ i @ js ''::ep='' @ e,
        API_BASE_URL @ js ''/api/v1/stream?server='' @ sv @ js ''&type='' @ ty @
          js ''&id='' @ i @ js ''::ep='' @ e] \<and>
     (\<exists>settlements.
        timeline (snd (watch env req s)) =
          timeline s @
            [Issued (API_BASE_URL @ js ''/api/v1/anime/'' @
                     takeWhile (\<lambda>c. c \<noteq> of_char CHR ''?'') i),
             Issued (API_BASE_URL @ js ''/api/v1/servers?id='' @ i @ js ''::ep='' @ e),
             Issued (API_BASE_URL @ js ''/api/v1/stream?server='' @ sv @ js ''&type='' @ ty @
                     js ''&id='' @ i @ js ''::ep='' @ e)] @
            settlements \<and>
        length settlements = 3 \<and> list_all is_Settled settlements) \<and>
     (query req (js ''ep'') = None \<longrightarrow> e = js ''1'') \<and>
     (query req (js ''server'') = None \<longrightarrow> sv = js ''HD-1'') \<and>
     (query req (js ''type'') = None \<longrightarrow> ty = js ''sub'')"
proof -
  have "\<exists>settlements.
        timeline (snd (watch env req s)) =
          timeline s @
            [Issued (API_BASE_URL @ js ''/api/v1/anime/'' @
                     takeWhile (\<lambda>c. c \<noteq> of_char CHR ''?'') i),
             Issued (API_BASE_URL @ js ''/api/v1/servers?id='' @ i @ js ''::ep='' @ e),
             Issued (API_BASE_URL @ js ''/api/v1/stream?server='' @ sv @ js ''&type='' @ ty @
                     js ''&id='' @ i @ js ''::ep='' @ e)] @
            settlements \<and>
        length settlements = 3 \<and> list_all is_Settled settlements"
    unfolding watch_run [OF assms refl refl refl]
    by (intro exI [of _ "[Settled _, Settled _, Settled _]"]) simp
  then show ?thesis
    using watch_requested [OF assms] assms(2-4) by (auto simp: text_or_def)
qed

theorem watch_calls_witness:
  "params watch_42 (js ''animeId'') = Some (js ''42'') \<and>
   text_or (query watch_42 (js ''ep'')) (js ''1'') = Some (js ''3'') \<and>
   text_or (query watch_42 (js ''server'')) (js ''HD-1'') = Some (js ''HD-1'') \<and>
   text_or (query watch_42 (js ''type'')) (js ''sub'') = Some (js ''sub'') \<and>
   requested (snd (watch env_down watch_42 io0)) =
     [js ''https://animekai-6wq1.onrender.com/api/v1/anime/42'',
      js ''https://animekai-6wq1.onrender.com/api/v1/servers?id=42::ep=3'',
      js ''https://animekai-6wq1.onrender.com/api/v1/stream?server=HD-1&type=sub&id=42::ep=3''] \<and>
   (\<exists>settlements.
      timeline (snd (watch env_down watch_42 io0)) =
        [Issued (js ''https://animekai-6wq1.onrender.com/api/v1/anime/42''),
         Issued (js ''https://animekai-6wq1.onrender.com/api/v1/servers?id=42::ep=3''),
         Issued (js ''https://animekai-6wq1.onrender.com/api/v1/stream?server=HD-1&type=sub&id=42::ep=3'')] @
        settlements \<and>
      length settlements = 3 \<and> list_all is_Settled settlements)"
proof -
  have i: "params watch_42 (js ''animeId'') = Some (js ''42'')"
    by (simp add: watch_42_def)
  have e: "text_or (query watch_42 (js ''ep'')) (js ''1'') = Some (js ''3'')"
    by (simp add: watch_42_def text_or_def)
  have sv: "text_or (query watch_42 (js ''server'')) (js ''HD-1'') = Some (js ''HD-1'')"
    by (simp add: watch_42_def text_or_def)
  have ty: "text_or (query watch_42 (js ''type'')) (js ''sub'') = Some (js ''sub'')"
    by (simp add: watch_42_def text_or_def)
  have cut: "takeWhile (\<lambda>c. c \<noteq> of_char CHR ''?'') (js ''42'') = js ''42''"
    by (simp add: js_def)
  have "requested (snd (watch env_down watch_42 io0)) =
     [js ''https://animekai-6wq1.onrender.com/api/v1/anime/42'',
      js ''https://animekai-6wq1.onrender.com/api/v1/servers?id=42::ep=3'',
      js ''https://animekai-6wq1.onrender.com/api/v1/stream?server=HD-1&type=sub&id=42::ep=3'']"
    using watch_calls [OF i e sv ty, of env_down io0] unfolding cut
    by (simp add: io0_def API_BASE_URL_def)
  moreover have "\<exists>settlements.
      timeline (snd (watch env_down watch_42 io0)) =
        [Issued (js ''https://animekai-6wq1.onrender.com/api/v1/anime/42''),
         Issued (js ''https://animekai-6wq1.onrender.com/api/v1/servers?id=42::ep=3''),
         Issued (js ''https://animekai-6wq1.onrender.com/api/v1/stream?server=HD-1&type=sub&id=42::ep=3'')] @
        settlements \<and>
      length settlements = 3 \<and> list_all is_Settled settlements"
    using watch_calls [OF i e sv ty, of env_down io0] unfolding cut
    by (simp add: io0_def API_BASE_URL_def)
  ultimately show ?thesis
    using i e sv ty by blast
qed

text \<open>
  C8 as it is stated fails: for \<^verbatim>\<open>/watch/42%3Fx?ep=3\<close> the anime id is \<^verbatim>\<open>42?x\<close>, the
  composite key is \<^verbatim>\<open>42?x::ep=3\<close>, and the anime-detail call goes to
  \<^verbatim>\<open>/api/v1/anime/42\<close>, not to the path of the anime id.
\<close>

theorem watch_anime_call_not_by_id:
  "params watch_42x (js ''animeId'') = Some (js ''42?x'') \<and>
   requested (snd (watch env_down watch_42x io0)) =
     [js ''https://animekai-6wq1.onrender.com/api/v1/anime/42'',
      js ''https://animekai-6wq1.onrender.com/api/v1/servers?id=42?x::ep=3'',
      js ''https://animekai-6wq1.onrender.com/api/v1/stream?server=HD-1&type=sub&id=42?x::ep=3''] \<and>
   hd (requested (snd (watch env_down watch_42x io0))) \<noteq>
     js ''https://animekai-6wq1.onrender.com/api/v1/anime/42?x''"
proof -
  have i: "params watch_42x (js ''animeId'') = Some (js ''42?x'')"
    by (simp add: watch_42x_def)
  have e: "text_or (query watch_42x (js ''ep'')) (js ''1'') = Some (js ''3'')"
    by (simp add: watch_42x_def text_or_def)
  have sv: "text_or (query watch_42x (js ''server'')) (js ''HD-1'') = Some (js ''HD-1'')"
    by (simp add: watch_42x_def text_or_def)
  have ty: "text_or (query watch_42x (js ''type'')) (js ''sub'') = Some (js ''sub'')"
    by (simp add: watch_42x_def text_or_def)
  have cut: "takeWhile (\<lambda>c. c \<noteq> of_char CHR ''?'') (js ''42?x'') = js ''42''"
    by (simp add: js_def)
  have "requested (snd (watch env_down watch_42x io0)) =
     [js ''https://animekai-6wq1.onrender.com/api/v1/anime/42'',
      js ''https://animekai-6wq1.onrender.com/api/v1/servers?id=42?x::ep=3'',
      js ''https://animekai-6wq1.onrender.com/api/v1/stream?server=HD-1&type=sub&id=42?x::ep=3'']"
    unfolding watch_requested [OF i e sv ty] cut by (simp add: io0_def API_BASE_URL_def)
  with i show ?thesis
    by simp
qed

text \<open>
  C10. In the handler of \<^verbatim>\<open>/watch/:animeId\<close> the anime-detail call uses the part of the
  anime id before its first \<^verbatim>\<open>?\<close>, the composite key of the servers and stream calls
  uses the whole anime id, and for an anime id without \<^verbatim>\<open>?\<close> the two are the same.
\<close>

theorem watch_anime_id_cut:
  assumes "params req (js ''animeId'') = Some i"
    and "text_or (query req (js ''ep'')) (js ''1'') = Some e"
    and "text_or (query req (js ''server'')) (js ''HD-1'') = Some sv"
    and "text_or (query req (js ''type'')) (js ''sub'') = Some ty"
  shows "\<exists>cut rest.
     i = cut @ rest \<and> of_char CHR ''?'' \<notin> set cut \<and> (rest = [] \<or> hd rest = of_char CHR ''?'') \<and>
     requested (snd (watch env req s)) =
       requested s @
         [API_BASE_URL @ js ''/api/v1/anime/'' @ cut,
          API_BASE_URL @ js ''/api/v1/servers?id='' @ i @ js ''::ep='' @ e,
          API_BASE_URL @ js ''/api/v1/stream?server='' @ sv @ js ''&type='' @ ty @
            js ''&id='' @ i @ js ''::ep='' @ e] \<and>
     (of_char CHR ''?'' \<notin> set i \<longrightarrow> cut = i)"
proof -
  let ?cut = "takeWhile (\<lambda>c. c \<noteq> of_char CHR ''?'') i"
  let ?rest = "dropWhile (\<lambda>c. c \<noteq> of_char CHR ''?'') i"
  have "i = ?cut @ ?rest"
    by simp
  moreover have "of_char CHR ''?'' \<notin> set ?cut"
    by (auto dest: set_takeWhileD)
  moreover have "?rest = [] \<or> hd ?rest = of_char CHR ''?''"
    using hd_dropWhile [of "\<lambda>c. c \<noteq> of_char CHR ''?''" i] by blast
  moreover have "of_char CHR ''?'' \<notin> set i \<longrightarrow> ?cut = i"
    by (auto simp: takeWhile_eq_all_conv)
  ultimately show ?thesis
    using watch_requested [OF assms, of env s] by blast
qed

theorem watch_anime_id_cut_witness:
  "params watch_42x (js ''animeId'') = Some (js ''42?x'') \<and>
   text_or (query watch_42x (js ''ep'')) (js ''1'') = Some (js ''3'') \<and>
   text_or (query watch_42x (js ''server'')) (js ''HD-1'') = Some (js ''HD-1'') \<and>
   text_or (query watch_42x (js ''type'')) (js ''sub'') = Some (js ''sub'') \<and>
   (\<exists>cut rest.
      js ''42?x'' = cut @ rest \<and> of_char CHR ''?'' \<notin> set cut \<and>
      (rest = [] \<or> hd rest = of_char CHR ''?'') \<and>
      requested (snd (watch env_down watch_42x io0)) =
        [js ''https://animekai-6wq1.onrender.com/api/v1/anime/'' @ cut,
         js ''https://animekai-6wq1.onrender.com/api/v1/servers?id=42?x::ep=3'',
         js ''https://animekai-6wq1.onrender.com/api/v1/stream?server=HD-1&type=sub&id=42?x::ep=3''])"
proof -
  have i: "params watch_42x (js ''animeId'') = Some (js ''42?x'')"
    by (simp add: watch_42x_def)
  have e: "text_or (query watch_42x (js ''ep'')) (js ''1'') = Some (js ''3'')"
    by (simp add: watch_42x_def text_or_def)
  have sv: "text_or (query watch_42x (js ''server'')) (js ''HD-1'') = Some (js ''HD-1'')"
    by (simp add: watch_42x_def text_or_def)
  have ty: "text_or (query watch_42x (js ''type'')) (js ''sub'') = Some (js ''sub'')"
    by (simp add: watch_42x_def text_or_def)
  from watch_anime_id_cut [OF i e sv ty, of env_down io0]
  obtain cut rest where
    parts: "js ''42?x'' = cut @ rest" "of_char CHR ''?'' \<notin> set cut"
      "rest = [] \<or> hd rest = of_char CHR ''?''" and
    calls: "requested (snd (watch env_down watch_42x io0)) =
       requested io0 @
         [API_BASE_URL @ js ''/api/v1/anime/'' @ cut,
          API_BASE_URL @ js ''/api/v1/servers?id='' @ js ''42?x'' @ js ''::ep='' @ js ''3'',
          API_BASE_URL @ js ''/api/v1/stream?server='' @ js ''HD-1'' @ js ''&type='' @ js ''sub'' @
            js ''&id='' @ js ''42?x'' @ js ''::ep='' @ js ''3'']"
    by blast
  from calls have "requested (snd (watch env_down watch_42x io0)) =
        [js ''https://animekai-6wq1.onrender.com/api/v1/anime/'' @ cut,
         js ''https://animekai-6wq1.onrender.com/api/v1/servers?id=42?x::ep=3'',
         js ''https://animekai-6wq1.onrender.com/api/v1/stream?server=HD-1&type=sub&id=42?x::ep=3'']"
    by (simp add: io0_def API_BASE_URL_def)
  with parts i e sv ty show ?thesis
    by blast
qed

text \<open>
  C9. The upstream paths are built by interpolation. The keyword of \<^verbatim>\<open>/search\<close> and of
  \<^verbatim>\<open>/api/suggestions\<close> goes through \<^verbatim>\<open>encodeURIComponent\<close> first, so what is interpolated
  consists of unreserved characters and \<^verbatim>\<open>%\<close> escapes only. Every other parameter (the
  anime id, the episode, the server, the type, the page, the query and category of
  \<^verbatim>\<open>/browse\<close>, the \<^verbatim>\<open>id\<close>, \<^verbatim>\<open>server\<close> and \<^verbatim>\<open>type\<close> of \<^verbatim>\<open>/api/servers\<close> and
  \<^verbatim>\<open>/api/stream\<close>) is interpolated as it is.
\<close>

theorem upstream_paths:
  "(query req (js ''keyword'') = Some (JStr kw) \<and> kw \<noteq> [] \<and> encode kw = Inr k \<and>
    text_or (query req (js ''page'')) (js ''1'') = Some p \<longrightarrow>
      requested (snd (search env req s)) =
        requested s @ [API_BASE_URL @ js ''/api/v1/search?keyword='' @ k @ js ''&page='' @ p]) \<and>
   (query req (js ''keyword'') = Some (JStr kw) \<and> kw \<noteq> [] \<and> encode kw = Inr k \<longrightarrow>
      requested (snd (api_suggestions env req s)) =
        requested s @ [API_BASE_URL @ js ''/api/v1/search/suggestion?keyword='' @ k]) \<and>
   (encode kw = Inr k \<longrightarrow> (\<forall>c \<in> set k. uriUnreserved c \<or> c = of_char CHR ''%'')) \<and>
   (params req (js ''id'') = Some i \<longrightarrow>
      requested (snd (anime_details env req s)) =
        requested s @ [API_BASE_URL @ js ''/api/v1/anime/'' @ i] \<and>
      requested (snd (episodes env req s)) =
        requested s @ [API_BASE_URL @ js ''/api/v1/anime/'' @ i,
                       API_BASE_URL @ js ''/api/v1/episodes/'' @ i]) \<and>
   (params req (js ''animeId'') = Some a \<and>
    text_or (query req (js ''ep'')) (js ''1'') = Some e \<and>
    text_or (query req (js ''server'')) (js ''HD-1'') = Some sv \<and>
    text_or (query req (js ''type'')) (js ''sub'') = Some ty \<longrightarrow>
      requested (snd (watch env req s)) =
        requested s @
          [API_BASE_URL @ js ''/api/v1/anime/'' @ takeWhile (\<lambda>c. c \<noteq> of_char CHR ''?'') a,
           API_BASE_URL @ js ''/api/v1/servers?id='' @ a @ js ''::ep='' @ e,
           API_BASE_URL @ js ''/api/v1/stream?server='' @ sv @ js ''&type='' @ ty @
             js ''&id='' @ a @ js ''::ep='' @ e]) \<and>
   (params req (js ''query'') = Some q \<and>
    text_or (query req (js ''page'')) (js ''1'') = Some p \<longrightarrow>
      requested (snd (browse env req s)) =
        requested s @
          [API_BASE_URL @ js ''/api/v1/animes/'' @ q @
             (case params req (js ''category'') of
                None \<Rightarrow> []
              | Some c \<Rightarrow> if c = [] then [] else js ''/'' @ c) @
             js ''?page='' @ p]) \<and>
   (query req (js ''id'') = Some (JStr x) \<and> x \<noteq> [] \<longrightarrow>
      requested (snd (api_servers env req s)) =
        requested s @ [API_BASE_URL @ js ''/api/v1/servers?id='' @ x]) \<and>
   (query req (js ''id'') = Some (JStr x) \<and> x \<noteq> [] \<and>
    query req (js ''server'') = Some (JStr y) \<and> y \<noteq> [] \<and>
    query req (js ''type'') = Some (JStr z) \<and> z \<noteq> [] \<longrightarrow>
      requested (snd (api_stream env req s)) =
        requested s @ [API_BASE_URL @ js ''/api/v1/stream?server='' @ y @ js ''&type='' @ z @
                         js ''&id='' @ x])"
proof -
  have "encode kw = Inr k \<longrightarrow> (\<forall>c \<in> set k. uriUnreserved c \<or> c = of_char CHR ''%'')"
    using encode_alphabet [of kw k] by simp
  then show ?thesis
    using search_requested [of req kw k p env s] api_suggestions_requested [of req kw k env s]
      anime_details_requested [of req i env s] episodes_requested [of req i env s]
      watch_requested [of req a e sv ty env s] browse_requested [of req q p env s]
      api_servers_requested [of req x env s] api_stream_requested [of req x y z env s]
    by blast
qed

theorem upstream_paths_witness:
  "query search_a_b_c (js ''keyword'') = Some (JStr (js ''a b&c'')) \<and>
   encode (js ''a b&c'') = Inr (js ''a%20b%26c'') \<and>
   text_or (query search_a_b_c (js ''page'')) (js ''1'') = Some (js ''1'') \<and>
   requested (snd (search env_down search_a_b_c io0)) =
     [js ''https://animekai-6wq1.onrender.com/api/v1/search?keyword=a%20b%26c&page=1''] \<and>
   query servers_7_x (js ''id'') = Some (JStr (js ''7&x=1'')) \<and>
   requested (snd (api_servers env_down servers_7_x io0)) =
     [js ''https://animekai-6wq1.onrender.com/api/v1/servers?id=7&x=1'']"
proof -
  have kw: "query search_a_b_c (js ''keyword'') = Some (JStr (js ''a b&c''))"
    by (simp add: search_a_b_c_def)
  have nonempty: "js ''a b&c'' \<noteq> []" "js ''7&x=1'' \<noteq> []"
    by simp_all
  have k: "encode (js ''a b&c'') = Inr (js ''a%20b%26c'')"
    by (simp add: js_def uriUnreserved_def isLeadingSurrogate_def isTrailingSurrogate_def
        ebind_def utf8_def percent_def hexDigit_def)
  have p: "text_or (query search_a_b_c (js ''page'')) (js ''1'') = Some (js ''1'')"
    by (simp add: search_a_b_c_def text_or_def)
  have x: "query servers_7_x (js ''id'') = Some (JStr (js ''7&x=1''))"
    by (simp add: servers_7_x_def)
  have "requested (snd (search env_down search_a_b_c io0)) =
      [js ''https://animekai-6wq1.onrender.com/api/v1/search?keyword=a%20b%26c&page=1'']"
    using upstream_paths [of search_a_b_c "js ''a b&c''" "js ''a%20b%26c''" "js ''1''" env_down io0]
      kw nonempty k p
    by (simp add: io0_def API_BASE_URL_def)
  moreover have "requested (snd (api_servers env_down servers_7_x io0)) =
      [js ''https://animekai-6wq1.onrender.com/api/v1/servers?id=7&x=1'']"
    using upstream_paths [of servers_7_x _ _ _ env_down io0 _ _ _ _ _ _ "js ''7&x=1''"] x nonempty
    by (simp add: io0_def API_BASE_URL_def)
  ultimately show ?thesis
    using kw k p x by blast
qed

section \<open>A failing upstream, unmatched paths and forwarded errors\<close>

text \<open>
  C6, as the code has it. Every handler answers: the promise of a handler never rejects,
  so nothing unhandled reaches the client. When every upstream call returns
  \<^verbatim>\<open>success: false\<close>, the routes \<^verbatim>\<open>/\<close>, \<^verbatim>\<open>/anime/:id\<close>, \<^verbatim>\<open>/anime/:id/episodes\<close>,
  \<^verbatim>\<open>/watch/:animeId\<close> and \<^verbatim>\<open>/browse\<close> render the error view, the JSON routes answer a
  body with \<^verbatim>\<open>success: false\<close>, and \<^verbatim>\<open>/search\<close> renders the search view with
  \<^verbatim>\<open>results: null\<close>.
\<close>

theorem failing_upstream:
  "(\<exists>r s'. handler route env req s = (Inr r, s') \<and>
      ((\<forall>endpoint s1. \<exists>v. fst (apiCall env endpoint s1) = Inr v \<and>
          get_prop v (js ''success'') = Inr (JBool False)) \<longrightarrow> degraded route r)) \<and>
   (\<forall>e. fst (app env req s) \<noteq> Unhandled e)"
proof
  show "\<exists>r s'. handler route env req s = (Inr r, s') \<and>
      ((\<forall>endpoint s1. \<exists>v. fst (apiCall env endpoint s1) = Inr v \<and>
          get_prop v (js ''success'') = Inr (JBool False)) \<longrightarrow> degraded route r)"
    by (rule handler_answers)
  show "\<forall>e. fst (app env req s) \<noteq> Unhandled e"
  proof (cases "middleware env req")
    case Next
    show ?thesis
    proof (cases "matched req")
      case None
      with Next show ?thesis
        by (simp add: app_def settle_def not_found_def res_render_run)
    next
      case (Some route')
      from handler_answers [of route' env req s] obtain r s' where
        "handler route' env req s = (Inr r, s')"
        by blast
      with Next Some show ?thesis
        by (simp add: app_def settle_def)
    qed
  next
    case Answered
    then show ?thesis
      by (simp add: app_def)
  next
    case (Failed err)
    then show ?thesis
      by (simp add: app_def settle_def error_handler_def js_bind_def console_error_def
          res_render_run)
  qed
qed

theorem failing_upstream_witness:
  "(\<forall>endpoint s1. \<exists>v. fst (apiCall env_down endpoint s1) = Inr v \<and>
       get_prop v (js ''success'') = Inr (JBool False)) \<and>
   (\<exists>r s'. handler Watch env_down watch_42 io0 = (Inr r, s') \<and> error_page r) \<and>
   (\<exists>r s'. handler ApiServers env_down servers_7_x io0 = (Inr r, s') \<and> json_failure r) \<and>
   (\<exists>r s'. handler Search env_down search_a_b_c io0 = (Inr r, s') \<and> search_without_results r)"
proof -
  have down: "\<forall>endpoint s1. \<exists>v. fst (apiCall env_down endpoint s1) = Inr v \<and>
      get_prop v (js ''success'') = Inr (JBool False)"
    by (simp add: apiCall_run example_upstream_run env_down_def get_prop_def)
  moreover have "\<exists>r s'. handler Watch env_down watch_42 io0 = (Inr r, s') \<and> error_page r"
    using failing_upstream [of Watch env_down watch_42 io0] down by auto
  moreover have "\<exists>r s'. handler ApiServers env_down servers_7_x io0 = (Inr r, s') \<and> json_failure r"
    using failing_upstream [of ApiServers env_down servers_7_x io0] down by auto
  moreover have "\<exists>r s'. handler Search env_down search_a_b_c io0 = (Inr r, s') \<and>
      search_without_results r"
    using failing_upstream [of Search env_down search_a_b_c io0] down by auto
  ultimately show ?thesis
    by blast
qed

text \<open>
  C6 as it is stated fails for \<^verbatim>\<open>/search\<close>, an HTML route: with the upstream
  unreachable, \<^verbatim>\<open>/search?keyword=a%20b%26c\<close> renders the search view, not the error
  view.
\<close>

theorem search_renders_search_when_upstream_fails:
  "matched search_a_b_c = Some Search \<and>
   fst (apiCall env_down (js ''/api/v1/search?keyword=a%20b%26c&page=1'') io0) =
     Inr (JObj [(js ''success'', JBool False),
                (js ''error'', JStr (js ''Request failed with status code 404''))]) \<and>
   fst (app env_down search_a_b_c io0) =
     Sent (Render 200 (js ''search'')
             [(js ''results'', JNull), (js ''keyword'', JStr (js ''a b&c'')),
              (js ''currentPage'', JNum (js ''1'')),
              (js ''title'', JStr (js ''Search: a b&c - AnimeKai''))])"
proof -
  have k: "encode (js ''a b&c'') = Inr (js ''a%20b%26c'')"
    by (simp add: js_def uriUnreserved_def isLeadingSurrogate_def isTrailingSurrogate_def
        ebind_def utf8_def percent_def hexDigit_def)
  have page: "example_parseInt (js ''1'') = JNum (js ''1'')"
    by (simp add: example_parseInt_def js_def)
  have up: "upstream env_down (js ''/api/v1/search?keyword=a%20b%26c&page=1'') =
      JObj [(js ''success'', JBool False),
            (js ''error'', JStr (js ''Request failed with status code 404''))]"
    by (simp add: example_upstream_run env_down_def)
  have builtin: "parseInt env_down = example_parseInt" "middleware env_down search_a_b_c = Next"
    by (simp_all add: env_down_def example_env_def)
  have "fst (apiCall env_down (js ''/api/v1/search?keyword=a%20b%26c&page=1'') io0) =
     Inr (JObj [(js ''success'', JBool False),
                (js ''error'', JStr (js ''Request failed with status code 404''))])"
    by (simp add: apiCall_run up)
  moreover have "fst (app env_down search_a_b_c io0) =
     Sent (Render 200 (js ''search'')
             [(js ''results'', JNull), (js ''keyword'', JStr (js ''a b&c'')),
              (js ''currentPage'', JNum (js ''1'')),
              (js ''title'', JStr (js ''Search: a b&c - AnimeKai''))])"
    by (simp add: app_def settle_def search_def search_try_def search_a_b_c_def Let_def
        js_or_def req_query_def encodeURIComponent_def ebind_def k js_try_run js_bind_apiCall
        js_bind_lift res_render_run up builtin [unfolded search_a_b_c_def]
        cond_def get_prop_def js_parseInt_def page)
  ultimately show ?thesis
    by (simp add: search_a_b_c_def)
qed

text \<open>
  C7, as the code has it. A request that the middleware passes on and that matches no
  route gets the error view with status 404. An error forwarded to the error handler
  gets the error view with status 500, and its stack is logged. What a route handler
  answers has status 200, also when its \<^verbatim>\<open>try\<close> block throws: then the \<^verbatim>\<open>catch\<close> block
  of the handler answers (the error view with the message of the route, for
  \<^verbatim>\<open>/search\<close> the search view with \<^verbatim>\<open>results: null\<close>, for the JSON routes the body
  \<^verbatim>\<open>{ success: false, error: error.message }\<close>), and the error handler is not reached.
\<close>

theorem fallback_statuses:
  "(middleware env req = Next \<and> matched req = None \<longrightarrow>
      app env req s =
        (Sent (Render 404 (js ''error'')
                 [(js ''message'', JStr (js ''Page not found'')),
                  (js ''title'', JStr (js ''404 - Not Found''))]), s)) \<and>
   (middleware env req = Failed err \<longrightarrow>
      app env req s =
        (Sent (Render 500 (js ''error'')
                 [(js ''message'', JStr (js ''Something went wrong!'')),
                  (js ''title'', JStr (js ''500 - Server Error''))]),
         s\<lparr>console := console s @ [[stack env err]]\<rparr>)) \<and>
   (middleware env req = Next \<and> matched req = Some route \<longrightarrow>
      (\<exists>r s'. app env req s = (Sent r, s') \<and> res_status r = 200 \<and>
         (case handler_try route env req s of
            (Inl error, s1) \<Rightarrow> r = caught route env req error \<and> s' = s1
          | (Inr x, s1) \<Rightarrow> r = x \<and> s' = s1)))"
proof (intro conjI impI)
  assume "middleware env req = Next \<and> matched req = None"
  then show "app env req s =
        (Sent (Render 404 (js ''error'')
                 [(js ''message'', JStr (js ''Page not found'')),
                  (js ''title'', JStr (js ''404 - Not Found''))]), s)"
    by (simp add: app_def settle_def not_found_def res_render_run)
next
  assume "middleware env req = Failed err"
  then show "app env req s =
        (Sent (Render 500 (js ''error'')
                 [(js ''message'', JStr (js ''Something went wrong!'')),
                  (js ''title'', JStr (js ''500 - Server Error''))]),
         s\<lparr>console := console s @ [[stack env err]]\<rparr>)"
    by (simp add: app_def settle_def error_handler_def js_bind_def console_error_def
        res_render_run)
next
  assume route: "middleware env req = Next \<and> matched req = Some route"
  from handler_status [of route env req s] obtain r s' where
    answer: "handler route env req s = (Inr r, s')" and status: "res_status r = 200"
    by blast
  from answer have "case handler_try route env req s of
      (Inl error, s1) \<Rightarrow> r = caught route env req error \<and> s' = s1
    | (Inr x, s1) \<Rightarrow> r = x \<and> s' = s1"
    unfolding handler_caught by (auto split: prod.splits sum.splits)
  with route answer status
  show "\<exists>r s'. app env req s = (Sent r, s') \<and> res_status r = 200 \<and>
         (case handler_try route env req s of
            (Inl error, s1) \<Rightarrow> r = caught route env req error \<and> s' = s1
          | (Inr x, s1) \<Rightarrow> r = x \<and> s' = s1)"
    by (simp add: app_def settle_def)
qed

theorem fallback_statuses_witness:
  "middleware env_down (example_request None [] []) = Next \<and>
   matched (example_request None [] []) = None \<and>
   app env_down (example_request None [] []) io0 =
     (Sent (Render 404 (js ''error'')
              [(js ''message'', JStr (js ''Page not found'')),
               (js ''title'', JStr (js ''404 - Not Found''))]), io0) \<and>
   middleware env_rejecting watch_7 = Failed URIMalformed \<and>
   app env_rejecting watch_7 io0 =
     (Sent (Render 500 (js ''error'')
              [(js ''message'', JStr (js ''Something went wrong!'')),
               (js ''title'', JStr (js ''500 - Server Error''))]),
      \<lparr>requested = [], console = [[JStr (js ''URI malformed'')]], timeline = []\<rparr>) \<and>
   middleware env_down watch_42 = Next \<and> matched watch_42 = Some Watch \<and>
   (\<exists>r s'. app env_down watch_42 io0 = (Sent r, s') \<and> res_status r = 200) \<and>
   middleware env_null_home home_request = Next \<and> matched home_request = Some Home \<and>
   fst (handler_try Home env_null_home home_request io0) =
     Inl (CannotRead JNull (js ''success'')) \<and>
   fst (app env_null_home home_request io0) =
     Sent (Render 200 (js ''error'')
             [(js ''message'', JStr (js ''Server error occurred'')),
              (js ''title'', JStr (js ''Error''))])"
proof -
  have a: "middleware env_down (example_request None [] []) = Next"
    and b: "matched (example_request None [] []) = None"
    and c: "middleware env_rejecting watch_7 = Failed URIMalformed"
    and d: "middleware env_down watch_42 = Next" and e: "matched watch_42 = Some Watch"
    by (simp_all add: env_down_def env_rejecting_def example_env_def watch_42_def)
  have "app env_down (example_request None [] []) io0 =
     (Sent (Render 404 (js ''error'')
              [(js ''message'', JStr (js ''Page not found'')),
               (js ''title'', JStr (js ''404 - Not Found''))]), io0)"
    using fallback_statuses [of env_down "example_request None [] []" io0] a b by simp
  moreover have "app env_rejecting watch_7 io0 =
     (Sent (Render 500 (js ''error'')
              [(js ''message'', JStr (js ''Something went wrong!'')),
               (js ''title'', JStr (js ''500 - Server Error''))]),
      \<lparr>requested = [], console = [[JStr (js ''URI malformed'')]], timeline = []\<rparr>)"
    using fallback_statuses [of env_rejecting watch_7 io0 URIMalformed] c
    by (simp add: io0_def env_rejecting_def env_down_def example_env_def)
  moreover have "\<exists>r s'. app env_down watch_42 io0 = (Sent r, s') \<and> res_status r = 200"
    using fallback_statuses [of env_down watch_42 io0 _ Watch] d e by auto
  moreover have f: "middleware env_null_home home_request = Next"
    and g: "matched home_request = Some Home"
    by (simp_all add: env_null_home_def example_env_def home_request_def)
  moreover have thrown: "home_try env_null_home home_request io0 =
      (Inl (CannotRead JNull (js ''success'')), called env_null_home (js ''/api/v1/home'') io0)"
    by (simp add: home_try_def js_bind_apiCall js_bind_lift example_upstream_run
        env_null_home_def get_prop_def)
  then have "fst (handler_try Home env_null_home home_request io0) =
      Inl (CannotRead JNull (js ''success''))"
    by simp
  moreover have "fst (app env_null_home home_request io0) =
     Sent (Render 200 (js ''error'')
             [(js ''message'', JStr (js ''Server error occurred'')),
              (js ''title'', JStr (js ''Error''))])"
    using fallback_statuses [of env_null_home home_request io0 _ Home] f g thrown
    by (auto simp: error_view_def)
  ultimately show ?thesis
    using a b c d e by blast
qed

text \<open>
  C7 as it is stated fails: when the upstream answers \<^verbatim>\<open>/api/v1/anime/7\<close> with
  \<^verbatim>\<open>null\<close>, reading \<^verbatim>\<open>animeData.success\<close> throws inside the handler of
  \<^verbatim>\<open>/watch/7\<close>, and the client gets the error view with status 200, not 500.
\<close>

theorem exception_in_handler_gives_200:
  "middleware env_null_body watch_7 = Next \<and> matched watch_7 = Some Watch \<and>
   fst (watch_try env_null_body watch_7 io0) = Inl (CannotRead JNull (js ''success'')) \<and>
   fst (app env_null_body watch_7 io0) =
     Sent (Render 200 (js ''error'')
             [(js ''message'', JStr (js ''Failed to load watch page'')),
              (js ''title'', JStr (js ''Error''))])"
proof -
  have cut: "takeWhile (\<lambda>c. c \<noteq> (63 :: 16 word)) (js ''7'') = js ''7''"
    by (simp add: js_def)
  have null: "upstream env_null_body (js ''/api/v1/anime/7'') = JNull"
    by (simp add: example_upstream_run env_null_body_def API_BASE_URL_def)
  have thrown: "fst (watch_try env_null_body watch_7 io0) = Inl (CannotRead JNull (js ''success''))"
    by (simp add: watch_try_def watch_7_def Let_def js_or_def req_query_def req_params_def
        ebind_def str_method_def index_split cut js_bind_start js_bind_all3 js_bind_lift null
        get_prop_def)
  then have "fst (app env_null_body watch_7 io0) =
     Sent (Render 200 (js ''error'')
             [(js ''message'', JStr (js ''Failed to load watch page'')),
              (js ''title'', JStr (js ''Error''))])"
    by (cases "watch_try env_null_body watch_7 io0")
      (simp add: app_def settle_def watch_def js_try_run render_error_run watch_7_def
        env_null_body_def example_env_def)
  with thrown show ?thesis
    by (simp add: watch_7_def env_null_body_def example_env_def)
qed

end
